theory Spec2Isabelle
  imports Main
begin

section \<open>JavaScript values used by the calendar code\<close>

text \<open>
  An optional string field (\<open>string | null | undefined\<close>) is a \<open>string option\<close>.
  JavaScript treats the absent value and the empty string as false in a condition;
  every \<open>!x\<close>, \<open>x || y\<close> and \<open>x && y\<close> of the source on such a field goes through
  \<open>truthy\<close>.
\<close>

definition truthy :: "string option \<Rightarrow> bool" where
  "truthy v = (case v of None \<Rightarrow> False | Some s \<Rightarrow> s \<noteq> [])"

text \<open>\<open>a || b\<close> on two optional strings: the left operand when it is truthy, else the right one.\<close>

definition js_or :: "string option \<Rightarrow> string option \<Rightarrow> string option" where
  "js_or a b = (if truthy a then a else b)"

text \<open>The string of an optional string, read where the source has already found it truthy.\<close>

definition str :: "string option \<Rightarrow> string" where
  "str v = (case v of None \<Rightarrow> [] | Some s \<Rightarrow> s)"

section \<open>Event shapes\<close>

text \<open>The \<open>start\<close> and \<open>end\<close> objects of a provider event (useGoogleCalendar.ts).\<close>

record EventTime =
  dateTime :: "string option"
  date :: "string option"
  timeZone :: "string option"

record Organizer =
  o_email :: string
  o_displayName :: "string option"

record Attendee =
  a_email :: string
  a_displayName :: "string option"
  a_responseStatus :: "string option"

text \<open>\<open>interface GoogleCalendarEvent\<close> of useGoogleCalendar.ts.\<close>

record GoogleCalendarEvent =
  g_id :: string
  g_summary :: string
  g_description :: "string option"
  g_location :: "string option"
  g_start :: EventTime
  g_end :: EventTime
  g_organizer :: "Organizer option"
  g_attendees :: "Attendee list option"
  g_htmlLink :: string
  g_colorId :: "string option"
  g_status :: string

text \<open>The contact columns that the local hook's query joins in (id, name, email, phone, company_id).\<close>

record Contact =
  k_id :: string
  k_name :: string
  k_email :: "string option"
  k_phone :: "string option"
  k_company_id :: "string option"

text \<open>\<open>interface CalendarEvent\<close> of the local calendar hook (useCalendarEvents).\<close>

record CalendarEvent =
  c_id :: string
  c_title :: string
  c_start :: string
  c_end :: "string option"
  c_allDay :: bool
  c_contact_id :: "string option"
  c_description :: "string option"
  c_location :: "string option"
  c_created_at :: string
  c_updated_at :: string
  c_contact :: "Contact option"

text \<open>
  The object handed to the calendar widget (\<open>EventInput\<close>). A key that a producer does not
  write is \<open>None\<close> (or the empty class list).
\<close>

record ExtendedProps =
  x_description :: "string option"
  x_location :: "string option"
  x_contact :: "Contact option"
  x_contact_id :: "string option"
  x_organizer :: "Organizer option"
  x_attendees :: "Attendee list option"
  x_source :: "string option"

record EventInput =
  e_id :: string
  e_title :: string
  e_start :: "string option"
  e_end :: "string option"
  e_allDay :: bool
  e_url :: "string option"
  e_extendedProps :: ExtendedProps
  e_classNames :: "string list"
  e_backgroundColor :: "string option"
  e_borderColor :: "string option"

section \<open>Formatting and merging\<close>

text \<open>The body of the \<open>map\<close> in \<open>getFormattedEvents\<close> of the local hook.\<close>

definition formatCrmEvent :: "CalendarEvent \<Rightarrow> EventInput" where
  "formatCrmEvent event =
     \<lparr> e_id = c_id event,
       e_title = c_title event,
       e_start = Some (c_start event),
       e_end = c_end event,
       e_allDay = c_allDay event,
       e_url = None,
       e_extendedProps =
         \<lparr> x_description = c_description event,
           x_location = c_location event,
           x_contact = c_contact event,
           x_contact_id = c_contact_id event,
           x_organizer = None,
           x_attendees = None,
           x_source = None \<rparr>,
       e_classNames = [],
       e_backgroundColor = None,
       e_borderColor = None \<rparr>"

definition getCrmEvents :: "CalendarEvent list \<Rightarrow> EventInput list" where
  "getCrmEvents events = map formatCrmEvent events"

text \<open>The body of the \<open>map\<close> in \<open>getFormattedEvents\<close> of useGoogleCalendar.ts.\<close>

definition formatGoogleEvent :: "GoogleCalendarEvent \<Rightarrow> EventInput" where
  "formatGoogleEvent event =
     (let start = js_or (dateTime (g_start event)) (date (g_start event));
          end' = js_or (dateTime (g_end event)) (date (g_end event));
          allDay = (\<not> truthy (dateTime (g_start event)))
      in \<lparr> e_id = g_id event,
           e_title = g_summary event,
           e_start = start,
           e_end = end',
           e_allDay = allDay,
           e_url = Some (g_htmlLink event),
           e_extendedProps =
             \<lparr> x_description = g_description event,
               x_location = g_location event,
               x_contact = None,
               x_contact_id = None,
               x_organizer = g_organizer event,
               x_attendees = g_attendees event,
               x_source = Some ''google'' \<rparr>,
           e_classNames = [''google-calendar-event''],
           e_backgroundColor = Some ''#4285F4'',
           e_borderColor = Some ''#4285F4'' \<rparr>)"

definition getGoogleEvents :: "GoogleCalendarEvent list \<Rightarrow> EventInput list" where
  "getGoogleEvents events = map formatGoogleEvent events"

text \<open>
  \<open>getAllEvents\<close> of the calendar page: \<open>crmEvents\<close> is the local hook's list,
  \<open>isGoogleConnected\<close> and \<open>googleEvents\<close> are the provider hook's flag and list.
\<close>

definition getAllEvents :: "CalendarEvent list \<Rightarrow> bool \<Rightarrow> GoogleCalendarEvent list \<Rightarrow> EventInput list" where
  "getAllEvents crmEvents isGoogleConnected googleEvents =
     (let crmFormattedEvents = getCrmEvents crmEvents;
          googleFormattedEvents = (if isGoogleConnected then getGoogleEvents googleEvents else [])
      in crmFormattedEvents @ googleFormattedEvents)"

section \<open>The integration store\<close>

text \<open>
  A row of the table \<open>user_integrations\<close>, with the columns the two proxy functions read and
  write. Timestamps are instants in milliseconds since the epoch (the source stores their
  ISO rendering and parses it back with \<open>new Date\<close>).
\<close>

record Integration =
  user_id :: string
  provider :: string
  access_token :: string
  refresh_token :: "string option"
  token_type :: "string option"
  expires_at :: int
  enabled :: bool
  created_at :: int
  updated_at :: int

text \<open>The \<open>error\<close> half of a store answer.\<close>

record PostgrestError =
  pe_code :: string
  pe_message :: string

text \<open>
  \<open>.select('*').eq('user_id', uid).eq('provider', 'google_calendar').eq('enabled', true)\<close>:
  the rows that pass the three filters.
\<close>

definition select_enabled :: "string \<Rightarrow> Integration list \<Rightarrow> Integration list" where
  "select_enabled uid tbl =
     filter (\<lambda>r. user_id r = uid \<and> provider r = ''google_calendar'' \<and> enabled r) tbl"

text \<open>
  \<open>.single()\<close>: the pair (data, error). A store failure gives that error and no data; with
  exactly one row the row is the data; with no row or several the client library reports
  the error code PGRST116 and no data.
\<close>

definition single :: "PostgrestError option \<Rightarrow> Integration list \<Rightarrow> Integration option \<times> PostgrestError option" where
  "single fault rows =
     (case fault of
        Some e \<Rightarrow> (None, Some e)
      | None \<Rightarrow>
          (case rows of
             [r] \<Rightarrow> (Some r, None)
           | _ \<Rightarrow> (None, Some \<lparr> pe_code = ''PGRST116'',
                                 pe_message = ''JSON object requested, multiple (or no) rows returned'' \<rparr>)))"

text \<open>
  \<open>.update(values).eq('user_id', uid).eq('provider', 'google_calendar')\<close>: every row
  that passes the two filters is rewritten by \<open>f\<close>; a store failure changes nothing and is
  reported.
\<close>

definition update_where :: "PostgrestError option \<Rightarrow> string \<Rightarrow> (Integration \<Rightarrow> Integration) \<Rightarrow> Integration list
    \<Rightarrow> Integration list \<times> PostgrestError option" where
  "update_where fault uid f tbl =
     (case fault of
        Some e \<Rightarrow> (tbl, Some e)
      | None \<Rightarrow>
          (map (\<lambda>r. if user_id r = uid \<and> provider r = ''google_calendar'' then f r else r) tbl, None))"

text \<open>
  \<open>.upsert(row, { onConflict: 'user_id, provider' })\<close>: a stored row with the same user
  and provider takes the columns of the row that is sent, otherwise the row is added. An
  absent \<open>refresh_token\<close> or \<open>token_type\<close> is not part of the row that is sent, so the
  stored column is kept.
\<close>

definition conflicts :: "Integration \<Rightarrow> Integration \<Rightarrow> bool" where
  "conflicts r row = (user_id r = user_id row \<and> provider r = provider row)"

definition keep :: "string option \<Rightarrow> string option \<Rightarrow> string option" where
  "keep new old = (case new of None \<Rightarrow> old | Some v \<Rightarrow> Some v)"

definition merge_duplicate :: "Integration \<Rightarrow> Integration \<Rightarrow> Integration" where
  "merge_duplicate row old =
     row\<lparr> refresh_token := keep (refresh_token row) (refresh_token old),
          token_type := keep (token_type row) (token_type old) \<rparr>"

definition upsert :: "Integration \<Rightarrow> Integration list \<Rightarrow> Integration list" where
  "upsert row tbl =
     (if list_ex (\<lambda>r. conflicts r row) tbl
      then map (\<lambda>r. if conflicts r row then merge_duplicate row r else r) tbl
      else tbl @ [row])"

text \<open>
  What a disconnect of user \<open>uid\<close> may change in a row: nothing but \<open>enabled\<close> and
  \<open>updated_at\<close>, and nothing at all in a row of another user or provider.
\<close>

definition disconnect_frame :: "string \<Rightarrow> Integration \<Rightarrow> Integration \<Rightarrow> bool" where
  "disconnect_frame uid r r' =
     (user_id r' = user_id r \<and> provider r' = provider r \<and> access_token r' = access_token r
      \<and> refresh_token r' = refresh_token r \<and> token_type r' = token_type r
      \<and> expires_at r' = expires_at r \<and> created_at r' = created_at r
      \<and> (if user_id r = uid \<and> provider r = ''google_calendar'' then True else r' = r))"

text \<open>Whether the table holds an enabled record of the user for the provider.\<close>

definition has_enabled :: "string \<Rightarrow> Integration list \<Rightarrow> bool" where
  "has_enabled uid tbl =
     list_ex (\<lambda>r. user_id r = uid \<and> provider r = ''google_calendar'' \<and> enabled r) tbl"

text \<open>
  The unique constraint that \<open>onConflict: 'user_id, provider'\<close> relies on: no two rows share
  user and provider.
\<close>

definition unique_keys :: "Integration list \<Rightarrow> bool" where
  "unique_keys tbl = distinct (map (\<lambda>r. (user_id r, provider r)) tbl)"

section \<open>The proxy functions' surroundings\<close>

text \<open>
  The provider's answer to a token request (code exchange or refresh): the request or the
  parsing of its answer throws, the answer is not ok (with its JSON text), or it carries
  tokens.
\<close>

record TokenData =
  t_access_token :: string
  t_refresh_token :: "string option"
  t_token_type :: "string option"
  t_expires_in :: "int option"

datatype token_outcome =
    TokenThrows string
  | TokenNotOk string
  | Tokens TokenData

text \<open>
  A request to the provider's calendar API and its answer: the fetch or the reading of the
  body throws, or it gives a response with its status, its body text and what
  \<open>response.json()\<close> makes of the body (\<open>Inl\<close> the message of the error it throws on a
  body that is not JSON, \<open>Inr\<close> the parsed value as JSON text).
\<close>

record CalendarRequest =
  cr_url :: string
  cr_params :: "(string \<times> string) list"
  cr_bearer :: string

datatype calendar_outcome =
    CalThrows string
  | CalResponse nat string "string + string"

datatype grant = AuthorizationCode string | RefreshToken string

text \<open>The requests a handler sends to the provider, in order.\<close>

datatype effect =
    TokenRequest grant
  | CalendarFetch CalendarRequest

text \<open>
  What a handler reads from outside: the function's configuration (\<open>Deno.env.get\<close>), the
  session service's answer to a token (the user's id, or nothing for an error or no user),
  the store's failures, the provider's answers, the ISO rendering of an instant, the
  message of the error that \<open>new Response(body, { status })\<close> throws for a status that
  takes no body or is out of range, and the error of \<open>new URL\<close> on a string that does not
  parse as a URL (\<open>None\<close> for one that does).
\<close>

record ServerEnv =
  SUPABASE_URL :: "string option"
  SUPABASE_SERVICE_ROLE_KEY :: "string option"
  GOOGLE_CLIENT_ID :: "string option"
  GOOGLE_CLIENT_SECRET :: "string option"
  GOOGLE_REDIRECT_URI :: "string option"
  auth_user :: "string \<Rightarrow> string option"
  select_fault :: "PostgrestError option"
  update_fault :: "PostgrestError option"
  upsert_fault :: "PostgrestError option"
  token_exchange :: "string \<Rightarrow> token_outcome"
  token_refresh :: "string \<Rightarrow> token_outcome"
  calendar_api :: "CalendarRequest \<Rightarrow> calendar_outcome"
  toISOString :: "int \<Rightarrow> string"
  response_error :: "nat \<Rightarrow> string"
  url_error :: "string \<Rightarrow> string option"

text \<open>
  \<open>createClient(supabaseUrl, supabaseServiceKey)\<close> throws when the URL or the key is empty,
  and when the URL does not parse (the client's constructor reads its host name). The
  value is the message of the error, \<open>None\<close> when the client is built.
\<close>

definition createClient :: "ServerEnv \<Rightarrow> string option" where
  "createClient env =
     (if \<not> truthy (SUPABASE_URL env) then Some ''supabaseUrl is required.''
      else if \<not> truthy (SUPABASE_SERVICE_ROLE_KEY env) then Some ''supabaseKey is required.''
      else url_error env (str (SUPABASE_URL env)))"

definition createClient_throws :: "ServerEnv \<Rightarrow> bool" where
  "createClient_throws env = (createClient env \<noteq> None)"

text \<open>
  \<open>supabase.auth.getUser(token)\<close>, a method of the client that \<open>createClient\<close> returned:
  without a client there is no session check to pass.
\<close>

definition getUser :: "ServerEnv \<Rightarrow> string \<Rightarrow> string option" where
  "getUser env token = (if createClient_throws env then None else auth_user env token)"

text \<open>
  \<open>new Date(t).toISOString()\<close> throws a RangeError (Invalid time value) when \<open>t\<close> is more
  than 8.64e15 milliseconds from the epoch. The readings of the clock are instants that a
  Date holds, also thirty days later.
\<close>

definition valid_time :: "int \<Rightarrow> bool" where
  "valid_time t = (- 8640000000000000 \<le> t \<and> t \<le> 8640000000000000)"

text \<open>
  \<open>new Response(body, { status })\<close> with a body throws for a status outside 200..599 and for
  the statuses that take no body.
\<close>

definition response_throws :: "nat \<Rightarrow> bool" where
  "response_throws st = (st < 200 \<or> 599 < st \<or> st = 204 \<or> st = 205 \<or> st = 304)"

text \<open>
  The clock readings of one request, one field per place where the handlers read the
  clock: the expiry check, the new \<open>expires_at\<close>, \<open>created_at\<close>, \<open>updated_at\<close>, and the two
  defaults of the time window.
\<close>

record Clock =
  clk_now :: int
  clk_expiry :: int
  clk_created :: int
  clk_updated :: int
  clk_timeMin :: int
  clk_timeMax :: int

record Request =
  rq_method :: string
  rq_pathname :: string
  rq_origin :: string
  rq_authorization :: "string option"
  rq_params :: "(string \<times> string) list"

datatype page =
    AuthenticationSuccessful
  | AuthenticationFailed string
  | ConnectionSuccessful string

datatype body =
    Text string
  | ErrorJson string
  | ErrorDetailsJson string string
  | StatusFailedJson string string bool
  | ConnectedJson bool
  | AuthUrlJson string "(string \<times> string) list"
  | EventsJson string
  | SuccessJson
  | Html page

record Response =
  status :: nat
  body :: body

text \<open>The \<open>connected\<close> key of a JSON body, when it has one.\<close>

fun connected_of :: "body \<Rightarrow> bool option" where
  "connected_of (ConnectedJson b) = Some b"
| "connected_of (StatusFailedJson e d b) = Some b"
| "connected_of other = None"

definition ok :: "nat \<Rightarrow> bool" where
  "ok st = (200 \<le> st \<and> st \<le> 299)"

text \<open>\<open>url.pathname.split('/').pop()\<close>: what follows the last slash.\<close>

definition action_of :: "string \<Rightarrow> string" where
  "action_of pathname = rev (takeWhile (\<lambda>c. c \<noteq> CHR ''/'') (rev pathname))"

text \<open>\<open>s.replace(pat, rep)\<close> with a string pattern: the first occurrence only.\<close>

fun replace_first :: "string \<Rightarrow> string \<Rightarrow> string \<Rightarrow> string" where
  "replace_first pat rep [] = (if pat = [] then rep else [])"
| "replace_first pat rep (c # cs) =
     (if take (length pat) (c # cs) = pat then rep @ drop (length pat) (c # cs)
      else c # replace_first pat rep cs)"

text \<open>\<open>req.headers.get('Authorization') || ''\<close> with the bearer prefix removed.\<close>

definition bearer_token :: "Request \<Rightarrow> string" where
  "bearer_token req =
     (let authHeader = (case rq_authorization req of None \<Rightarrow> [] | Some h \<Rightarrow> h)
      in replace_first ''Bearer '' [] authHeader)"

text \<open>\<open>searchParams.get(name)\<close>: the first value of the name.\<close>

definition param :: "Request \<Rightarrow> string \<Rightarrow> string option" where
  "param req name = map_of (rq_params req) name"

text \<open>\<open>searchParams.get(name) || fallback\<close>.\<close>

definition param_or :: "Request \<Rightarrow> string \<Rightarrow> string \<Rightarrow> string" where
  "param_or req name fallback =
     (case param req name of None \<Rightarrow> fallback | Some v \<Rightarrow> if v = [] then fallback else v)"

definition thirty_days :: int where
  "thirty_days = 30 * 24 * 60 * 60 * 1000"

section \<open>The function google-auth\<close>

text \<open>\<open>action === 'status'\<close>.\<close>

definition ga_status :: "ServerEnv \<Rightarrow> string \<Rightarrow> Integration list \<Rightarrow> Response" where
  "ga_status env uid tbl =
     (case single (select_fault env) (select_enabled uid tbl) of
        (data, error) \<Rightarrow> \<lparr> status = 200, body = ConnectedJson (data \<noteq> None \<and> error = None) \<rparr>)"

text \<open>
  The query construction of \<open>action === 'events'\<close>: the URL, the four parameters appended
  to it and the bearer token of the request.
\<close>

definition ga_events_url :: "ServerEnv \<Rightarrow> Clock \<Rightarrow> Request \<Rightarrow> string \<Rightarrow> CalendarRequest" where
  "ga_events_url env clk req accessToken =
     (let timeMin = param_or req ''timeMin'' (toISOString env (clk_timeMin clk));
          timeMax = param_or req ''timeMax'' (toISOString env (clk_timeMax clk + thirty_days))
      in \<lparr> cr_url = ''https://www.googleapis.com/calendar/v3/calendars/primary/events'',
           cr_params = [(''timeMin'', timeMin), (''timeMax'', timeMax),
                        (''singleEvents'', ''true''), (''orderBy'', ''startTime'')],
           cr_bearer = accessToken \<rparr>)"

text \<open>
  The calendar fetch of \<open>action === 'events'\<close> and the answer built from it. Every throw,
  also the one of \<open>json()\<close> on a body that is not JSON, ends in the handler's \<open>catch\<close>.
\<close>

definition ga_fetch :: "ServerEnv \<Rightarrow> Clock \<Rightarrow> Request \<Rightarrow> string \<Rightarrow> Integration list \<Rightarrow> effect list
    \<Rightarrow> Response \<times> Integration list \<times> effect list" where
  "ga_fetch env clk req accessToken tbl sent =
     (let eventsUrl = ga_events_url env clk req accessToken
      in (case calendar_api env eventsUrl of
            CalThrows m \<Rightarrow>
              (\<lparr> status = 500, body = ErrorJson (''Failed to fetch events: '' @ m) \<rparr>,
               tbl, sent @ [CalendarFetch eventsUrl])
          | CalResponse st txt parsed \<Rightarrow>
              if \<not> ok st then
                (case parsed of
                   Inl m \<Rightarrow>
                     (\<lparr> status = 500, body = ErrorJson (''Failed to fetch events: '' @ m) \<rparr>,
                      tbl, sent @ [CalendarFetch eventsUrl])
                 | Inr errorData \<Rightarrow>
                     (\<lparr> status = 500,
                        body = ErrorJson (''Failed to fetch events: Failed to fetch events: '' @ errorData) \<rparr>,
                      tbl, sent @ [CalendarFetch eventsUrl]))
              else
                (case parsed of
                   Inl m \<Rightarrow>
                     (\<lparr> status = 500, body = ErrorJson (''Failed to fetch events: '' @ m) \<rparr>,
                      tbl, sent @ [CalendarFetch eventsUrl])
                 | Inr eventsData \<Rightarrow>
                     (\<lparr> status = 200, body = EventsJson eventsData \<rparr>,
                      tbl, sent @ [CalendarFetch eventsUrl]))))"

text \<open>
  \<open>action === 'events'\<close>: the lookup, the refresh of an expired token, then the fetch.
  A refresh answer without a numeric \<open>expires_in\<close>, or with one that takes the new expiry
  out of the range of a Date, makes \<open>toISOString\<close> throw before anything is written; the
  handler's \<open>catch\<close> turns that into the 500 answer like every other throw.
\<close>

definition ga_events :: "ServerEnv \<Rightarrow> Clock \<Rightarrow> Request \<Rightarrow> string \<Rightarrow> Integration list
    \<Rightarrow> Response \<times> Integration list \<times> effect list" where
  "ga_events env clk req uid tbl =
     (case single (select_fault env) (select_enabled uid tbl) of
        (None, integrationError) \<Rightarrow>
          (\<lparr> status = 400, body = ErrorJson ''Google Calendar not connected'' \<rparr>, tbl, [])
      | (Some integration, Some e) \<Rightarrow>
          (\<lparr> status = 400, body = ErrorJson ''Google Calendar not connected'' \<rparr>, tbl, [])
      | (Some integration, None) \<Rightarrow>
          if clk_now clk \<ge> expires_at integration \<and> truthy (refresh_token integration) then
            (case token_refresh env (str (refresh_token integration)) of
               TokenThrows m \<Rightarrow>
                 (\<lparr> status = 500, body = ErrorJson (''Failed to fetch events: '' @ m) \<rparr>,
                  tbl, [TokenRequest (RefreshToken (str (refresh_token integration)))])
             | TokenNotOk j \<Rightarrow>
                 (\<lparr> status = 500,
                    body = ErrorJson (''Failed to fetch events: Token refresh failed: '' @ j) \<rparr>,
                  tbl, [TokenRequest (RefreshToken (str (refresh_token integration)))])
             | Tokens refreshData \<Rightarrow>
                 (case t_expires_in refreshData of
                    None \<Rightarrow>
                      (\<lparr> status = 500,
                         body = ErrorJson ''Failed to fetch events: Invalid time value'' \<rparr>,
                       tbl, [TokenRequest (RefreshToken (str (refresh_token integration)))])
                  | Some ttl \<Rightarrow>
                      if \<not> valid_time (clk_expiry clk + ttl * 1000) then
                        (\<lparr> status = 500,
                           body = ErrorJson ''Failed to fetch events: Invalid time value'' \<rparr>,
                         tbl, [TokenRequest (RefreshToken (str (refresh_token integration)))])
                      else
                        ga_fetch env clk req (t_access_token refreshData)
                          (fst (update_where (update_fault env) uid
                             (\<lambda>r. r\<lparr> access_token := t_access_token refreshData,
                                     expires_at := clk_expiry clk + ttl * 1000,
                                     updated_at := clk_updated clk \<rparr>) tbl))
                          [TokenRequest (RefreshToken (str (refresh_token integration)))]))
          else ga_fetch env clk req (access_token integration) tbl [])"

text \<open>\<open>action === 'callback'\<close>.\<close>

definition ga_callback :: "ServerEnv \<Rightarrow> Clock \<Rightarrow> Request \<Rightarrow> Integration list
    \<Rightarrow> Response \<times> Integration list \<times> effect list" where
  "ga_callback env clk req tbl =
     (if truthy (param req ''error'') then
        (\<lparr> status = 400,
           body = ErrorJson (''Google OAuth error: '' @ (case param req ''error'' of Some e \<Rightarrow> e | None \<Rightarrow> [])) \<rparr>,
         tbl, [])
      else
        (case (param req ''code'', param req ''state'') of
           (Some code, Some state) \<Rightarrow>
             if code = [] \<or> state = [] then
               (\<lparr> status = 400, body = ErrorJson ''Missing code or state parameter'' \<rparr>, tbl, [])
             else if \<not> truthy (GOOGLE_CLIENT_ID env) \<or> \<not> truthy (GOOGLE_CLIENT_SECRET env)
                     \<or> \<not> truthy (GOOGLE_REDIRECT_URI env) then
               (\<lparr> status = 500, body = Html (AuthenticationFailed ''Missing Google OAuth configuration'') \<rparr>,
                tbl, [])
             else
               (case token_exchange env code of
                  TokenThrows m \<Rightarrow>
                    (\<lparr> status = 500, body = Html (AuthenticationFailed m) \<rparr>,
                     tbl, [TokenRequest (AuthorizationCode code)])
                | TokenNotOk j \<Rightarrow>
                    (\<lparr> status = 500, body = Html (AuthenticationFailed (''Token exchange failed: '' @ j)) \<rparr>,
                     tbl, [TokenRequest (AuthorizationCode code)])
                | Tokens tokenData \<Rightarrow>
                    (case t_expires_in tokenData of
                       None \<Rightarrow>
                         (\<lparr> status = 500, body = Html (AuthenticationFailed ''Invalid time value'') \<rparr>,
                          tbl, [TokenRequest (AuthorizationCode code)])
                     | Some ttl \<Rightarrow>
                         if \<not> valid_time (clk_expiry clk + ttl * 1000) then
                           (\<lparr> status = 500, body = Html (AuthenticationFailed ''Invalid time value'') \<rparr>,
                            tbl, [TokenRequest (AuthorizationCode code)])
                         else
                         (case upsert_fault env of
                            Some upsertError \<Rightarrow>
                              (\<lparr> status = 500,
                                 body = Html (AuthenticationFailed
                                          (''Error storing token: '' @ pe_message upsertError)) \<rparr>,
                               tbl, [TokenRequest (AuthorizationCode code)])
                          | None \<Rightarrow>
                              (\<lparr> status = 200, body = Html AuthenticationSuccessful \<rparr>,
                               upsert
                                 \<lparr> user_id = state,
                                   provider = ''google_calendar'',
                                   access_token = t_access_token tokenData,
                                   refresh_token = t_refresh_token tokenData,
                                   token_type = t_token_type tokenData,
                                   expires_at = clk_expiry clk + ttl * 1000,
                                   enabled = True,
                                   created_at = clk_created clk,
                                   updated_at = clk_updated clk \<rparr>
                                 tbl,
                               [TokenRequest (AuthorizationCode code)]))))
         | _ \<Rightarrow> (\<lparr> status = 400, body = ErrorJson ''Missing code or state parameter'' \<rparr>, tbl, [])))"

text \<open>\<open>action === 'disconnect'\<close>.\<close>

definition ga_disconnect :: "ServerEnv \<Rightarrow> Clock \<Rightarrow> string \<Rightarrow> Integration list \<Rightarrow> Response \<times> Integration list" where
  "ga_disconnect env clk uid tbl =
     (case update_where (update_fault env) uid
             (\<lambda>r. r\<lparr> enabled := False, updated_at := clk_updated clk \<rparr>) tbl of
        (tbl', None) \<Rightarrow> (\<lparr> status = 200, body = SuccessJson \<rparr>, tbl')
      | (tbl', Some e) \<Rightarrow>
          (\<lparr> status = 500,
             body = ErrorJson (''Failed to disconnect: Error disconnecting: '' @ pe_message e) \<rparr>, tbl'))"

text \<open>\<open>action === 'authorize'\<close>: the authorization URL and the parameters appended to it.\<close>

definition GOOGLE_AUTH_URL :: string where
  "GOOGLE_AUTH_URL = ''https://accounts.google.com/o/oauth2/v2/auth''"

definition ga_authorize :: "ServerEnv \<Rightarrow> Request \<Rightarrow> Response" where
  "ga_authorize env req =
     (if \<not> truthy (GOOGLE_CLIENT_ID env) \<or> \<not> truthy (GOOGLE_REDIRECT_URI env) then
        \<lparr> status = 500, body = ErrorJson ''Missing Google OAuth configuration'' \<rparr>
      else
        \<lparr> status = 200,
          body = AuthUrlJson GOOGLE_AUTH_URL
                   [(''client_id'', str (GOOGLE_CLIENT_ID env)),
                    (''redirect_uri'', str (GOOGLE_REDIRECT_URI env)),
                    (''response_type'', ''code''),
                    (''scope'', ''https://www.googleapis.com/auth/calendar.events https://www.googleapis.com/auth/calendar.readonly https://www.googleapis.com/auth/userinfo.email https://www.googleapis.com/auth/userinfo.profile''),
                    (''access_type'', ''offline''),
                    (''prompt'', ''consent''),
                    (''state'', param_or req ''state'' [])] \<rparr>)"

text \<open>
  \<open>serve\<close> of google-auth: the answer, the table afterwards and the requests sent to the
  provider. \<open>createClient\<close> runs outside every \<open>try\<close>: when it throws, the server's error
  handler answers 500 Internal Server Error. The session is checked for every action but
  authorize and callback.
\<close>

definition google_auth :: "ServerEnv \<Rightarrow> Clock \<Rightarrow> Request \<Rightarrow> Integration list
    \<Rightarrow> Response \<times> Integration list \<times> effect list" where
  "google_auth env clk req tbl =
     (if rq_method req = ''OPTIONS'' then (\<lparr> status = 200, body = Text ''ok'' \<rparr>, tbl, [])
      else if createClient_throws env then
        (\<lparr> status = 500, body = Text ''Internal Server Error'' \<rparr>, tbl, [])
      else
        (let action = action_of (rq_pathname req)
         in if action = ''authorize'' then (ga_authorize env req, tbl, [])
            else if action = ''callback'' then ga_callback env clk req tbl
            else
              (case getUser env (bearer_token req) of
                 None \<Rightarrow> (\<lparr> status = 401, body = ErrorJson ''Unauthorized'' \<rparr>, tbl, [])
               | Some uid \<Rightarrow>
                   if action = ''status'' then (ga_status env uid tbl, tbl, [])
                   else if action = ''events'' then ga_events env clk req uid tbl
                   else if action = ''disconnect'' then
                     (case ga_disconnect env clk uid tbl of (r, tbl') \<Rightarrow> (r, tbl', []))
                   else (\<lparr> status = 400, body = ErrorJson ''Invalid action'' \<rparr>, tbl, []))))"

section \<open>The function google-calendar\<close>

text \<open>\<open>refreshed.expiresIn || 3600\<close> and \<open>tokens.expiresIn || 3600\<close>.\<close>

definition expiresIn_or_3600 :: "int option \<Rightarrow> int" where
  "expiresIn_or_3600 v = (case v of None \<Rightarrow> 3600 | Some n \<Rightarrow> if n = 0 then 3600 else n)"

text \<open>
  \<open>getAccessToken\<close>: \<open>Inl\<close> is the message of the error it throws, \<open>Inr\<close> the access token.
  The OAuth client library throws on a failed refresh, whatever the cause; a new expiry out
  of the range of a Date makes \<open>toISOString\<close> throw inside the same \<open>try\<close>, before anything
  is written.
\<close>

definition getAccessToken :: "ServerEnv \<Rightarrow> Clock \<Rightarrow> string \<Rightarrow> Integration list
    \<Rightarrow> (string + string) \<times> Integration list \<times> effect list" where
  "getAccessToken env clk uid tbl =
     (case single (select_fault env) (select_enabled uid tbl) of
        (None, integrationError) \<Rightarrow> (Inl ''Google Calendar not connected'', tbl, [])
      | (Some integration, Some e) \<Rightarrow> (Inl ''Google Calendar not connected'', tbl, [])
      | (Some integration, None) \<Rightarrow>
          if clk_now clk > expires_at integration \<and> truthy (refresh_token integration) then
            (case token_refresh env (str (refresh_token integration)) of
               Tokens refreshed \<Rightarrow>
                 if \<not> valid_time (clk_expiry clk + expiresIn_or_3600 (t_expires_in refreshed) * 1000) then
                   (Inl ''Failed to refresh token: Invalid time value'', tbl,
                    [TokenRequest (RefreshToken (str (refresh_token integration)))])
                 else
                 (Inr (t_access_token refreshed),
                  fst (update_where (update_fault env) uid
                     (\<lambda>r. r\<lparr> access_token := t_access_token refreshed,
                             expires_at := clk_expiry clk + expiresIn_or_3600 (t_expires_in refreshed) * 1000,
                             updated_at := clk_updated clk \<rparr>) tbl),
                  [TokenRequest (RefreshToken (str (refresh_token integration)))])
             | TokenNotOk m \<Rightarrow>
                 (Inl (''Failed to refresh token: '' @ m), tbl,
                  [TokenRequest (RefreshToken (str (refresh_token integration)))])
             | TokenThrows m \<Rightarrow>
                 (Inl (''Failed to refresh token: '' @ m), tbl,
                  [TokenRequest (RefreshToken (str (refresh_token integration)))]))
          else (Inr (access_token integration), tbl, []))"

text \<open>\<open>case 'status'\<close>.\<close>

definition gc_status :: "ServerEnv \<Rightarrow> string \<Rightarrow> Integration list \<Rightarrow> Response" where
  "gc_status env uid tbl =
     (case single (select_fault env) (select_enabled uid tbl) of
        (data, queryError) \<Rightarrow>
          (case queryError of
             Some e \<Rightarrow>
               if pe_code e \<noteq> ''PGRST116'' then
                 \<lparr> status = 500,
                   body = StatusFailedJson ''Failed to check connection status'' (pe_message e) False \<rparr>
               else \<lparr> status = 200, body = ConnectedJson (data \<noteq> None) \<rparr>
           | None \<Rightarrow> \<lparr> status = 200, body = ConnectedJson (data \<noteq> None) \<rparr>))"

text \<open>
  \<open>case 'events'\<close>: the request URL is one template string and nothing is appended to it.
  A provider answer that is not ok is passed on with its status; building that answer
  throws for a status that takes no body, and \<open>json()\<close> throws on an ok answer that is not
  JSON; both end in the \<open>catch\<close> of the case.
\<close>

definition GOOGLE_API_URL :: string where
  "GOOGLE_API_URL = ''https://www.googleapis.com/calendar/v3''"

definition gc_events_url :: "ServerEnv \<Rightarrow> Clock \<Rightarrow> Request \<Rightarrow> string \<Rightarrow> CalendarRequest" where
  "gc_events_url env clk req accessToken =
     (let timeMin = param_or req ''timeMin'' (toISOString env (clk_timeMin clk));
          timeMax = param_or req ''timeMax'' (toISOString env (clk_timeMax clk + thirty_days))
      in \<lparr> cr_url = GOOGLE_API_URL @ ''/calendars/primary/events?timeMin='' @ timeMin
                      @ ''&timeMax='' @ timeMax @ ''&singleEvents=true'',
           cr_params = [],
           cr_bearer = accessToken \<rparr>)"

definition gc_events :: "ServerEnv \<Rightarrow> Clock \<Rightarrow> Request \<Rightarrow> string \<Rightarrow> Integration list
    \<Rightarrow> Response \<times> Integration list \<times> effect list" where
  "gc_events env clk req uid tbl =
     (case getAccessToken env clk uid tbl of
        (Inl m, tbl', sent) \<Rightarrow>
          (\<lparr> status = 500, body = ErrorDetailsJson ''Failed to fetch events'' m \<rparr>, tbl', sent)
      | (Inr accessToken, tbl', sent) \<Rightarrow>
          (let calendarRequest = gc_events_url env clk req accessToken
           in (case calendar_api env calendarRequest of
                 CalThrows m \<Rightarrow>
                   (\<lparr> status = 500, body = ErrorDetailsJson ''Failed to fetch events'' m \<rparr>,
                    tbl', sent @ [CalendarFetch calendarRequest])
               | CalResponse st txt parsed \<Rightarrow>
                   if \<not> ok st then
                     (if response_throws st then
                        (\<lparr> status = 500,
                           body = ErrorDetailsJson ''Failed to fetch events'' (response_error env st) \<rparr>,
                         tbl', sent @ [CalendarFetch calendarRequest])
                      else
                        (\<lparr> status = st, body = ErrorDetailsJson ''Failed to fetch events'' txt \<rparr>,
                         tbl', sent @ [CalendarFetch calendarRequest]))
                   else
                     (case parsed of
                        Inl m \<Rightarrow>
                          (\<lparr> status = 500, body = ErrorDetailsJson ''Failed to fetch events'' m \<rparr>,
                           tbl', sent @ [CalendarFetch calendarRequest])
                      | Inr events \<Rightarrow>
                          (\<lparr> status = 200, body = EventsJson events \<rparr>,
                           tbl', sent @ [CalendarFetch calendarRequest])))))"

text \<open>
  \<open>case 'callback'\<close>: the library exchanges the code of the request URL and throws when
  the exchange fails; an expiry out of the range of a Date throws inside the same \<open>try\<close>.
  The row that is sent has no \<open>token_type\<close>.
\<close>

definition gc_callback :: "ServerEnv \<Rightarrow> Clock \<Rightarrow> Request \<Rightarrow> Integration list
    \<Rightarrow> Response \<times> Integration list \<times> effect list" where
  "gc_callback env clk req tbl =
     (case (param req ''code'', param req ''state'') of
        (Some code, Some state) \<Rightarrow>
          if code = [] \<or> state = [] then
            (\<lparr> status = 400, body = ErrorJson ''Missing code or state'' \<rparr>, tbl, [])
          else
            (case token_exchange env code of
               Tokens tokens \<Rightarrow>
                 if \<not> valid_time (clk_expiry clk + expiresIn_or_3600 (t_expires_in tokens) * 1000) then
                   (\<lparr> status = 500,
                      body = ErrorDetailsJson ''Failed to exchange authorization code for tokens''
                               ''Invalid time value'' \<rparr>,
                    tbl, [TokenRequest (AuthorizationCode code)])
                 else
                 (case upsert_fault env of
                    Some upsertError \<Rightarrow>
                      (\<lparr> status = 500, body = ErrorJson ''Failed to store tokens'' \<rparr>,
                       tbl, [TokenRequest (AuthorizationCode code)])
                  | None \<Rightarrow>
                      (\<lparr> status = 200, body = Html (ConnectionSuccessful (rq_origin req)) \<rparr>,
                       upsert
                         \<lparr> user_id = state,
                           provider = ''google_calendar'',
                           access_token = t_access_token tokens,
                           refresh_token = t_refresh_token tokens,
                           token_type = None,
                           expires_at = clk_expiry clk + expiresIn_or_3600 (t_expires_in tokens) * 1000,
                           enabled = True,
                           created_at = clk_created clk,
                           updated_at = clk_updated clk \<rparr>
                         tbl,
                       [TokenRequest (AuthorizationCode code)]))
             | TokenNotOk m \<Rightarrow>
                 (\<lparr> status = 500,
                    body = ErrorDetailsJson ''Failed to exchange authorization code for tokens'' m \<rparr>,
                  tbl, [TokenRequest (AuthorizationCode code)])
             | TokenThrows m \<Rightarrow>
                 (\<lparr> status = 500,
                    body = ErrorDetailsJson ''Failed to exchange authorization code for tokens'' m \<rparr>,
                  tbl, [TokenRequest (AuthorizationCode code)]))
      | _ \<Rightarrow> (\<lparr> status = 400, body = ErrorJson ''Missing code or state'' \<rparr>, tbl, []))"

text \<open>
  \<open>!supabaseUrl || !supabaseServiceKey || !googleClientId || !googleClientSecret || !redirectUri\<close>.
\<close>

definition missing_configuration :: "ServerEnv \<Rightarrow> bool" where
  "missing_configuration env =
     (\<not> truthy (SUPABASE_URL env) \<or> \<not> truthy (SUPABASE_SERVICE_ROLE_KEY env)
      \<or> \<not> truthy (GOOGLE_CLIENT_ID env) \<or> \<not> truthy (GOOGLE_CLIENT_SECRET env)
      \<or> \<not> truthy (GOOGLE_REDIRECT_URI env))"

text \<open>
  \<open>serve\<close> of google-calendar: the preflight answer, the configuration check, the client
  (a throw of \<open>createClient\<close> ends in the outer \<open>catch\<close>), the session check, then the
  action. The actions get-auth-url, create, update and delete are outside this development;
  the function is \<open>None\<close> on them.
\<close>

definition google_calendar :: "ServerEnv \<Rightarrow> Clock \<Rightarrow> Request \<Rightarrow> Integration list
    \<Rightarrow> (Response \<times> Integration list \<times> effect list) option" where
  "google_calendar env clk req tbl =
     (if rq_method req = ''OPTIONS'' then Some (\<lparr> status = 200, body = Text ''ok'' \<rparr>, tbl, [])
      else if missing_configuration env then
        Some (\<lparr> status = 500,
                body = ErrorDetailsJson ''Server configuration error'' ''Missing environment variables'' \<rparr>,
              tbl, [])
      else
        (case createClient env of
           Some m \<Rightarrow>
             Some (\<lparr> status = 500, body = ErrorDetailsJson ''Internal server error'' m \<rparr>, tbl, [])
         | None \<Rightarrow>
             (case getUser env (bearer_token req) of
                None \<Rightarrow> Some (\<lparr> status = 401, body = ErrorJson ''Unauthorized'' \<rparr>, tbl, [])
              | Some uid \<Rightarrow>
                  (let action = action_of (rq_pathname req)
                   in if action = ''get-auth-url'' then None
                      else if action = ''callback'' then Some (gc_callback env clk req tbl)
                      else if action = ''status'' then Some (gc_status env uid tbl, tbl, [])
                      else if action = ''events'' then Some (gc_events env clk req uid tbl)
                      else if action = ''create'' \<or> action = ''update'' \<or> action = ''delete'' then None
                      else Some (\<lparr> status = 400, body = ErrorDetailsJson ''Invalid action'' action \<rparr>,
                                 tbl, [])))))"

section \<open>The calendar connection hook\<close>

text \<open>\<open>interface GoogleCalendarState\<close>: the hook's React state.\<close>

record GoogleCalendarState =
  isConnected :: bool
  events :: "GoogleCalendarEvent list"
  loading :: bool
  error :: "string option"

record Session =
  s_access_token :: string
  s_user_id :: string

text \<open>
  The body of a request: none, the event payload of \<open>create\<close> (its JSON text), or the pair
  \<open>{ eventId, eventData }\<close> of \<open>update\<close>.
\<close>

datatype request_body = NoBody | EventBody string | UpdateBody string string

text \<open>
  A request of the hook: the URL as written, the parameters appended with
  \<open>searchParams.append\<close>, the method, the authorization header and the body.
\<close>

record HttpRequest =
  h_url :: string
  h_query :: "(string \<times> string) list"
  h_method :: string
  h_authorization :: string
  h_body :: request_body

text \<open>The \<open>url\<close> key of an answer: absent or falsy, a string, or a truthy value of another type.\<close>

datatype json_url = NoUrl | UrlString string | UrlOther string

text \<open>The keys that the hook reads from a parsed answer.\<close>

record ResponseBody =
  b_connected :: bool
  b_url :: json_url
  b_items :: "GoogleCalendarEvent list option"
  b_event :: GoogleCalendarEvent

text \<open>An answer: \<open>r_json\<close> is \<open>Inl\<close> the message when \<open>response.json()\<close> throws.\<close>

record HttpResponse =
  r_status :: nat
  r_statusText :: string
  r_json :: "string + ResponseBody"

datatype fetch_outcome = Rejected string | Resolved HttpResponse

datatype toast = ToastError string | ToastSuccess string

text \<open>
  What the hook reads from outside: the build configuration, the session, the network,
  the window's origin, whether the browser opens a popup, the store's failure on the
  hook's own update, and the clock.
\<close>

record ClientEnv =
  VITE_SUPABASE_FUNCTIONS_URL :: "string option"
  VITE_SUPABASE_URL :: "string option"
  getSession :: "Session option"
  fetch :: "HttpRequest \<Rightarrow> fetch_outcome"
  window_origin :: string
  window_open :: "string \<Rightarrow> bool"
  store_fault :: "PostgrestError option"
  date_now :: int

datatype popup = NoPopup | PopupOpen | PopupClosed

text \<open>
  The hook's state with what it has done so far (toasts shown, requests sent) and the
  watchers of one popup flow: the message listener, the interval timer and the
  two-minute timer.
\<close>

record Client =
  state :: GoogleCalendarState
  functionsUrl :: "string option"
  toasts :: "toast list"
  requests :: "HttpRequest list"
  popup :: popup
  messageListener_on :: bool
  checkStatusInterval_on :: bool
  timeout_on :: bool

definition setState :: "(GoogleCalendarState \<Rightarrow> GoogleCalendarState) \<Rightarrow> Client \<Rightarrow> Client" where
  "setState f c = c\<lparr> state := f (state c) \<rparr>"

definition toast :: "toast \<Rightarrow> Client \<Rightarrow> Client" where
  "toast t c = c\<lparr> toasts := toasts c @ [t] \<rparr>"

definition send :: "HttpRequest \<Rightarrow> Client \<Rightarrow> Client" where
  "send rq c = c\<lparr> requests := requests c @ [rq] \<rparr>"

text \<open>A number inside a template string: its decimal digits.\<close>

fun show_nat :: "nat \<Rightarrow> string" where
  "show_nat n =
     (if n < 10 then [char_of (48 + n)]
      else show_nat (n div 10) @ [char_of (48 + n mod 10)])"

declare show_nat.simps [simp del]

text \<open>\<open>getFunctionsUrl\<close>: the cached URL, the configured one, the derived one or the hard-coded one.\<close>

definition getFunctionsUrl :: "ClientEnv \<Rightarrow> Client \<Rightarrow> string \<times> Client" where
  "getFunctionsUrl env c =
     (if truthy (functionsUrl c) then (str (functionsUrl c), c)
      else if truthy (VITE_SUPABASE_FUNCTIONS_URL env) then
        (str (VITE_SUPABASE_FUNCTIONS_URL env),
         c\<lparr> functionsUrl := Some (str (VITE_SUPABASE_FUNCTIONS_URL env)) \<rparr>)
      else if truthy (VITE_SUPABASE_URL env) then
        (let baseUrl = str (VITE_SUPABASE_URL env);
             normalizedUrl = (if last baseUrl = CHR ''/'' then butlast baseUrl else baseUrl);
             derivedUrl = normalizedUrl @ ''/functions/v1''
         in (derivedUrl, c\<lparr> functionsUrl := Some derivedUrl \<rparr>))
      else
        (''https://zgqtllbobikwycchknsuu.supabase.co/functions/v1'',
         c\<lparr> functionsUrl := Some ''https://zgqtllbobikwycchknsuu.supabase.co/functions/v1'' \<rparr>))"

text \<open>The outer \<open>catch\<close> of \<open>checkConnection\<close>, with the message of the error it caught.\<close>

definition checkConnection_failed :: "bool \<Rightarrow> string \<Rightarrow> Client \<Rightarrow> bool \<times> Client" where
  "checkConnection_failed silent m c =
     (False,
      setState (\<lambda>prev. prev\<lparr> isConnected := False,
                              error := Some (''Connection check failed: '' @ m),
                              loading := False \<rparr>)
        (if \<not> silent then toast (ToastError (''Failed to check connection: '' @ m)) c else c))"

text \<open>The inner \<open>catch\<close> of \<open>checkConnection\<close> wraps the message and throws again.\<close>

definition checkConnection_request_failed :: "bool \<Rightarrow> string \<Rightarrow> Client \<Rightarrow> bool \<times> Client" where
  "checkConnection_request_failed silent m c =
     checkConnection_failed silent
       (''API request failed: '' @ m @ ''. Please try again later or contact support.'') c"

definition status_request :: "string \<Rightarrow> Session \<Rightarrow> HttpRequest" where
  "status_request apiUrl session =
     \<lparr> h_url = apiUrl @ ''/google-calendar?action=status'',
       h_query = [],
       h_method = ''GET'',
       h_authorization = ''Bearer '' @ s_access_token session,
       h_body = NoBody \<rparr>"

text \<open>\<open>checkConnection(silent)\<close>: the value returned and the hook afterwards.\<close>

definition checkConnection :: "ClientEnv \<Rightarrow> bool \<Rightarrow> Client \<Rightarrow> bool \<times> Client" where
  "checkConnection env silent c =
     (case getFunctionsUrl env c of
        (apiUrl, c1) \<Rightarrow>
          if apiUrl = [] then
            (False, setState (\<lambda>prev. prev\<lparr> isConnected := False, loading := False,
                                            error := Some ''Supabase Functions URL is not configured'' \<rparr>) c1)
          else
            (let c2 = setState (\<lambda>prev. prev\<lparr> loading := True, error := None \<rparr>) c1
             in (case getSession env of
                   None \<Rightarrow> (False, setState (\<lambda>prev. prev\<lparr> isConnected := False, loading := False \<rparr>) c2)
                 | Some session \<Rightarrow>
                     (let c3 = send (status_request apiUrl session) c2
                      in (case fetch env (status_request apiUrl session) of
                            Rejected m \<Rightarrow> checkConnection_request_failed silent m c3
                          | Resolved response \<Rightarrow>
                              if r_status response = 404 then
                                (False,
                                 setState (\<lambda>prev. prev\<lparr> isConnected := False, loading := False,
                                     error := Some ''Google Calendar Edge Function not found. Please contact your administrator.'' \<rparr>)
                                   (if \<not> silent then
                                      toast (ToastError ''Google Calendar integration is not available. The Edge Function has not been deployed or is unreachable.'') c3
                                    else c3))
                              else if \<not> ok (r_status response) then
                                checkConnection_request_failed silent
                                  (''Failed to check connection status: '' @ show_nat (r_status response)
                                     @ '' '' @ r_statusText response) c3
                              else
                                (case r_json response of
                                   Inl m \<Rightarrow> checkConnection_request_failed silent m c3
                                 | Inr data \<Rightarrow>
                                     (b_connected data,
                                      setState (\<lambda>prev. prev\<lparr> isConnected := b_connected data,
                                                              loading := False \<rparr>) c3)))))))"

text \<open>The outer \<open>catch\<close> of \<open>connect\<close>, and its inner \<open>catch\<close>, which wraps the message.\<close>

definition connect_failed :: "string \<Rightarrow> Client \<Rightarrow> bool \<times> Client" where
  "connect_failed m c =
     (False,
      setState (\<lambda>prev. prev\<lparr> loading := False, error := Some (''Connection failed: '' @ m) \<rparr>)
        (toast (ToastError (''Failed to connect Google Calendar: '' @ m)) c))"

definition connect_request_failed :: "string \<Rightarrow> Client \<Rightarrow> bool \<times> Client" where
  "connect_request_failed m c = connect_failed (''API request failed: '' @ m) c"

definition auth_url_request :: "string \<Rightarrow> Session \<Rightarrow> HttpRequest" where
  "auth_url_request apiUrl session =
     \<lparr> h_url = apiUrl @ ''/google-calendar?action=get-auth-url'',
       h_query = [],
       h_method = ''GET'',
       h_authorization = ''Bearer '' @ s_access_token session,
       h_body = NoBody \<rparr>"

text \<open>
  \<open>connect\<close> up to its \<open>return\<close>: with the popup open it registers the message listener, the
  interval timer and the two-minute timer.
\<close>

definition connect :: "ClientEnv \<Rightarrow> Client \<Rightarrow> bool \<times> Client" where
  "connect env c =
     (case getFunctionsUrl env c of
        (apiUrl, c1) \<Rightarrow>
          if apiUrl = [] then
            (False, toast (ToastError ''API configuration error: Missing Supabase Functions URL'') c1)
          else
            (let c2 = setState (\<lambda>prev. prev\<lparr> loading := True, error := None \<rparr>) c1
             in (case getSession env of
                   None \<Rightarrow> connect_failed ''User not authenticated'' c2
                 | Some session \<Rightarrow>
                     (let c3 = send (auth_url_request apiUrl session) c2
                      in (case fetch env (auth_url_request apiUrl session) of
                            Rejected m \<Rightarrow> connect_request_failed m c3
                          | Resolved response \<Rightarrow>
                              if r_status response = 404 then
                                (False,
                                 setState (\<lambda>prev. prev\<lparr> loading := False,
                                     error := Some ''Google Calendar Edge Function not found. Please contact your administrator.'' \<rparr>)
                                   (toast (ToastError ''Google Calendar integration is not available. The Edge Function has not been deployed or is unreachable. Please contact your administrator.'') c3))
                              else if \<not> ok (r_status response) then
                                connect_request_failed
                                  (''Failed to get authentication URL: '' @ show_nat (r_status response)
                                     @ '' '' @ r_statusText response) c3
                              else
                                (case r_json response of
                                   Inl m \<Rightarrow> connect_request_failed m c3
                                 | Inr data \<Rightarrow>
                                     (case b_url data of
                                        NoUrl \<Rightarrow>
                                          connect_request_failed ''No authentication URL received from server'' c3
                                      | UrlOther shown \<Rightarrow>
                                          connect_request_failed (''OAuth URL is not a string! Got: '' @ shown) c3
                                      | UrlString url \<Rightarrow>
                                          if \<not> window_open env url then
                                            connect_request_failed
                                              ''Popup window was blocked. Please allow popups for this site.'' c3
                                          else
                                            (True, c3\<lparr> popup := PopupOpen,
                                                       messageListener_on := True,
                                                       checkStatusInterval_on := True,
                                                       timeout_on := True \<rparr>))))))))"

section \<open>The watchers of the popup flow\<close>

text \<open>The \<open>data\<close> of a message event: a string, or an object shown by its \<open>type\<close> key.\<close>

datatype message_data = StringData string | ObjectData string

text \<open>
  \<open>messageListener(event)\<close>, run to its end: the awaited \<open>checkConnection\<close> is finished
  before the next event is handled.
\<close>

definition messageListener :: "ClientEnv \<Rightarrow> string \<Rightarrow> message_data \<Rightarrow> Client \<Rightarrow> Client" where
  "messageListener env origin data c =
     (if origin \<noteq> window_origin env then c
      else if data = StringData ''google_calendar_connected'' then
        (case checkConnection env False
                (c\<lparr> messageListener_on := False,
                    popup := PopupClosed \<rparr>) of
           (connected, c') \<Rightarrow>
             if connected then toast (ToastSuccess ''Google Calendar connected successfully'') c' else c')
      else c)"

text \<open>The callback of \<open>setInterval\<close>, run to its end.\<close>

definition checkStatusInterval :: "ClientEnv \<Rightarrow> Client \<Rightarrow> Client" where
  "checkStatusInterval env c =
     (if popup c = PopupClosed then
        (case checkConnection env False
                (c\<lparr> checkStatusInterval_on := False, messageListener_on := False \<rparr>) of
           (connected, c') \<Rightarrow>
             (let c'' = setState (\<lambda>prev. prev\<lparr> loading := False \<rparr>) c'
              in if connected then toast (ToastSuccess ''Google Calendar connected successfully'') c''
                 else toast (ToastError ''Google Calendar connection was not completed'') c''))
      else c)"

text \<open>The callback of \<open>setTimeout\<close>.\<close>

definition connect_timeout :: "Client \<Rightarrow> Client" where
  "connect_timeout c =
     setState (\<lambda>prev. prev\<lparr> loading := False \<rparr>)
       (c\<lparr> checkStatusInterval_on := False,
           messageListener_on := False,
           popup := PopupClosed \<rparr>)"

text \<open>
  What the browser can deliver to the page during a flow: a message event, a tick of the
  interval timer, the two-minute timer, and the popup window closing by itself or by the
  user. A watcher that is no longer registered does not run; the two-minute timer runs once.
\<close>

datatype browser_event =
    Message string message_data
  | IntervalTick
  | TimeoutFires
  | PopupCloses

definition step :: "ClientEnv \<Rightarrow> Client \<Rightarrow> browser_event \<Rightarrow> Client" where
  "step env c ev =
     (case ev of
        Message origin data \<Rightarrow> if messageListener_on c then messageListener env origin data c else c
      | IntervalTick \<Rightarrow> if checkStatusInterval_on c then checkStatusInterval env c else c
      | TimeoutFires \<Rightarrow> if timeout_on c then connect_timeout (c\<lparr> timeout_on := False \<rparr>) else c
      | PopupCloses \<Rightarrow> c\<lparr> popup := PopupClosed \<rparr>)"

definition run :: "ClientEnv \<Rightarrow> Client \<Rightarrow> browser_event list \<Rightarrow> Client" where
  "run env c evs = foldl (step env) c evs"

text \<open>Counting what a flow did: status re-checks sent and success toasts shown.\<close>

definition is_status_request :: "HttpRequest \<Rightarrow> bool" where
  "is_status_request rq =
     (drop (length (h_url rq) - length ''/google-calendar?action=status'') (h_url rq)
        = ''/google-calendar?action=status'')"

definition status_checks :: "Client \<Rightarrow> nat" where
  "status_checks c = length (filter is_status_request (requests c))"

fun is_success :: "toast \<Rightarrow> bool" where
  "is_success (ToastSuccess m) = True"
| "is_success (ToastError m) = False"

definition success_toasts :: "Client \<Rightarrow> nat" where
  "success_toasts c = length (filter is_success (toasts c))"

section \<open>The hook's calendar operations\<close>

definition fetchEvents_failed :: "Client \<Rightarrow> GoogleCalendarEvent list \<times> Client" where
  "fetchEvents_failed c =
     ([], setState (\<lambda>prev. prev\<lparr> loading := False, error := Some ''Failed to fetch events'' \<rparr>)
            (toast (ToastError ''Failed to fetch calendar events'') c))"

text \<open>\<open>fetchEvents(timeMin, timeMax)\<close>. The functions URL is taken to parse as a URL.\<close>

definition fetchEvents :: "ClientEnv \<Rightarrow> string option \<Rightarrow> string option \<Rightarrow> Client
    \<Rightarrow> GoogleCalendarEvent list \<times> Client" where
  "fetchEvents env timeMin timeMax c =
     (if \<not> isConnected (state c) then ([], c)
      else
        (case getFunctionsUrl env c of
           (apiUrl, c1) \<Rightarrow>
             if apiUrl = [] then
               ([], setState (\<lambda>prev. prev\<lparr> error := Some ''API configuration error: Missing Supabase Functions URL'',
                                              loading := False \<rparr>) c1)
             else
               (let c2 = setState (\<lambda>prev. prev\<lparr> loading := True, error := None \<rparr>) c1
                in (case getSession env of
                      None \<Rightarrow> fetchEvents_failed c2
                    | Some session \<Rightarrow>
                        (let url = \<lparr> h_url = apiUrl @ ''/google-calendar?action=events'',
                                     h_query = (if truthy timeMin then [(''timeMin'', str timeMin)] else [])
                                               @ (if truthy timeMax then [(''timeMax'', str timeMax)] else []),
                                     h_method = ''GET'',
                                     h_authorization = ''Bearer '' @ s_access_token session,
                                     h_body = NoBody \<rparr>;
                             c3 = send url c2
                         in (case fetch env url of
                               Rejected m \<Rightarrow> fetchEvents_failed c3
                             | Resolved response \<Rightarrow>
                                 if \<not> ok (r_status response) then fetchEvents_failed c3
                                 else
                                   (case r_json response of
                                      Inl m \<Rightarrow> fetchEvents_failed c3
                                    | Inr data \<Rightarrow>
                                        (let items = (case b_items data of None \<Rightarrow> [] | Some xs \<Rightarrow> xs)
                                         in (items,
                                             setState (\<lambda>prev. prev\<lparr> events := items, loading := False \<rparr>) c3)))))))))"

definition createEvent_failed :: "Client \<Rightarrow> GoogleCalendarEvent option \<times> Client" where
  "createEvent_failed c =
     (None, setState (\<lambda>prev. prev\<lparr> loading := False, error := Some ''Failed to create event'' \<rparr>)
              (toast (ToastError ''Failed to create event in Google Calendar'') c))"

text \<open>\<open>createEvent(eventData)\<close>; \<open>eventData\<close> is the JSON text of the payload.\<close>

definition createEvent :: "ClientEnv \<Rightarrow> string \<Rightarrow> Client \<Rightarrow> GoogleCalendarEvent option \<times> Client" where
  "createEvent env eventData c =
     (if \<not> isConnected (state c) then (None, toast (ToastError ''Google Calendar is not connected'') c)
      else
        (case getFunctionsUrl env c of
           (apiUrl, c1) \<Rightarrow>
             if apiUrl = [] then
               (None, toast (ToastError ''API configuration error: Missing Supabase Functions URL'') c1)
             else
               (let c2 = setState (\<lambda>prev. prev\<lparr> loading := True, error := None \<rparr>) c1
                in (case getSession env of
                      None \<Rightarrow> createEvent_failed c2
                    | Some session \<Rightarrow>
                        (let rq = \<lparr> h_url = apiUrl @ ''/google-calendar?action=create'',
                                    h_query = [],
                                    h_method = ''POST'',
                                    h_authorization = ''Bearer '' @ s_access_token session,
                                    h_body = EventBody eventData \<rparr>;
                             c3 = send rq c2
                         in (case fetch env rq of
                               Rejected m \<Rightarrow> createEvent_failed c3
                             | Resolved response \<Rightarrow>
                                 if \<not> ok (r_status response) then createEvent_failed c3
                                 else
                                   (case r_json response of
                                      Inl m \<Rightarrow> createEvent_failed c3
                                    | Inr data \<Rightarrow>
                                        (Some (b_event data),
                                         toast (ToastSuccess ''Event created in Google Calendar'')
                                           (setState (\<lambda>prev. prev\<lparr> events := events prev @ [b_event data],
                                                                   loading := False \<rparr>) c3)))))))))"

definition updateEvent_failed :: "Client \<Rightarrow> GoogleCalendarEvent option \<times> Client" where
  "updateEvent_failed c =
     (None, setState (\<lambda>prev. prev\<lparr> loading := False, error := Some ''Failed to update event'' \<rparr>)
              (toast (ToastError ''Failed to update event in Google Calendar'') c))"

text \<open>\<open>updateEvent(eventId, eventData)\<close>.\<close>

definition updateEvent :: "ClientEnv \<Rightarrow> string \<Rightarrow> string \<Rightarrow> Client \<Rightarrow> GoogleCalendarEvent option \<times> Client" where
  "updateEvent env eventId eventData c =
     (if \<not> isConnected (state c) then (None, toast (ToastError ''Google Calendar is not connected'') c)
      else
        (case getFunctionsUrl env c of
           (apiUrl, c1) \<Rightarrow>
             if apiUrl = [] then
               (None, toast (ToastError ''API configuration error: Missing Supabase Functions URL'') c1)
             else
               (let c2 = setState (\<lambda>prev. prev\<lparr> loading := True, error := None \<rparr>) c1
                in (case getSession env of
                      None \<Rightarrow> updateEvent_failed c2
                    | Some session \<Rightarrow>
                        (let rq = \<lparr> h_url = apiUrl @ ''/google-calendar?action=update'',
                                    h_query = [],
                                    h_method = ''PATCH'',
                                    h_authorization = ''Bearer '' @ s_access_token session,
                                    h_body = UpdateBody eventId eventData \<rparr>;
                             c3 = send rq c2
                         in (case fetch env rq of
                               Rejected m \<Rightarrow> updateEvent_failed c3
                             | Resolved response \<Rightarrow>
                                 if \<not> ok (r_status response) then updateEvent_failed c3
                                 else
                                   (case r_json response of
                                      Inl m \<Rightarrow> updateEvent_failed c3
                                    | Inr data \<Rightarrow>
                                        (Some (b_event data),
                                         toast (ToastSuccess ''Event updated in Google Calendar'')
                                           (setState (\<lambda>prev. prev\<lparr> events := map (\<lambda>e. if g_id e = eventId then b_event data else e) (events prev),
                                                                   loading := False \<rparr>) c3)))))))))"

definition deleteEvent_failed :: "Client \<Rightarrow> bool \<times> Client" where
  "deleteEvent_failed c =
     (False, setState (\<lambda>prev. prev\<lparr> loading := False, error := Some ''Failed to delete event'' \<rparr>)
               (toast (ToastError ''Failed to delete event from Google Calendar'') c))"

text \<open>\<open>deleteEvent(eventId)\<close>.\<close>

definition deleteEvent :: "ClientEnv \<Rightarrow> string \<Rightarrow> Client \<Rightarrow> bool \<times> Client" where
  "deleteEvent env eventId c =
     (if \<not> isConnected (state c) then (False, toast (ToastError ''Google Calendar is not connected'') c)
      else
        (case getFunctionsUrl env c of
           (apiUrl, c1) \<Rightarrow>
             if apiUrl = [] then
               (False, toast (ToastError ''API configuration error: Missing Supabase Functions URL'') c1)
             else
               (let c2 = setState (\<lambda>prev. prev\<lparr> loading := True, error := None \<rparr>) c1
                in (case getSession env of
                      None \<Rightarrow> deleteEvent_failed c2
                    | Some session \<Rightarrow>
                        (let rq = \<lparr> h_url = apiUrl @ ''/google-calendar?action=delete&eventId='' @ eventId,
                                    h_query = [],
                                    h_method = ''DELETE'',
                                    h_authorization = ''Bearer '' @ s_access_token session,
                                    h_body = NoBody \<rparr>;
                             c3 = send rq c2
                         in (case fetch env rq of
                               Rejected m \<Rightarrow> deleteEvent_failed c3
                             | Resolved response \<Rightarrow>
                                 if \<not> ok (r_status response) then deleteEvent_failed c3
                                 else
                                   (True,
                                    toast (ToastSuccess ''Event deleted from Google Calendar'')
                                      (setState (\<lambda>prev. prev\<lparr> events := filter (\<lambda>e. g_id e \<noteq> eventId) (events prev),
                                                              loading := False \<rparr>) c3))))))))"

text \<open>
  The hook's \<open>disconnect\<close>: it updates the store row itself. The store is passed in and
  returned.
\<close>

definition disconnect :: "ClientEnv \<Rightarrow> Client \<Rightarrow> Integration list \<Rightarrow> bool \<times> Client \<times> Integration list" where
  "disconnect env c tbl =
     (let c1 = setState (\<lambda>prev. prev\<lparr> loading := True, error := None \<rparr>) c
      in (case getSession env of
            None \<Rightarrow>
              (False,
               setState (\<lambda>prev. prev\<lparr> loading := False, error := Some ''Disconnection failed'' \<rparr>)
                 (toast (ToastError ''Failed to disconnect Google Calendar'') c1),
               tbl)
          | Some session \<Rightarrow>
              (case update_where (store_fault env) (s_user_id session)
                      (\<lambda>r. r\<lparr> enabled := False, updated_at := date_now env \<rparr>) tbl of
                 (tbl', Some e) \<Rightarrow>
                   (False,
                    setState (\<lambda>prev. prev\<lparr> loading := False, error := Some ''Disconnection failed'' \<rparr>)
                      (toast (ToastError ''Failed to disconnect Google Calendar'') c1),
                    tbl')
               | (tbl', None) \<Rightarrow>
                   (True,
                    toast (ToastSuccess ''Google Calendar disconnected'')
                      (setState (\<lambda>prev. prev\<lparr> isConnected := False, events := [], loading := False \<rparr>) c1),
                    tbl'))))"

section \<open>Sample inputs\<close>

text \<open>A stored integration of user u1 whose token expired at instant 1000.\<close>

definition sample_row :: Integration where
  "sample_row =
     \<lparr> user_id = ''u1'', provider = ''google_calendar'', access_token = ''old-token'',
       refresh_token = Some ''r1'', token_type = Some ''Bearer'', expires_at = 1000,
       enabled = True, created_at = 10, updated_at = 10 \<rparr>"

text \<open>A server whose store and provider answer: a refresh gives a token that lives 3599 seconds.\<close>

definition sample_env :: ServerEnv where
  "sample_env =
     \<lparr> SUPABASE_URL = Some ''https://p.supabase.co'',
       SUPABASE_SERVICE_ROLE_KEY = Some ''service-key'',
       GOOGLE_CLIENT_ID = Some ''client-id'',
       GOOGLE_CLIENT_SECRET = Some ''client-secret'',
       GOOGLE_REDIRECT_URI = Some ''https://p.supabase.co/functions/v1/google-auth/callback'',
       auth_user = (\<lambda>t. if t = ''jwt-u1'' then Some ''u1'' else None),
       select_fault = None,
       update_fault = None,
       upsert_fault = None,
       token_exchange = (\<lambda>code. Tokens \<lparr> t_access_token = ''first-token'', t_refresh_token = Some ''r1'',
                                          t_token_type = Some ''Bearer'', t_expires_in = Some 3599 \<rparr>),
       token_refresh = (\<lambda>rt. Tokens \<lparr> t_access_token = ''new-token'', t_refresh_token = None,
                                       t_token_type = Some ''Bearer'', t_expires_in = Some 3599 \<rparr>),
       calendar_api = (\<lambda>rq. CalResponse 200 ''{}'' (Inr ''{}'')),
       toISOString = (\<lambda>t. if t = 2003 then ''A'' else ''B''),
       response_error = (\<lambda>st. ''Response with null body status cannot have body''),
       url_error = (\<lambda>u. None) \<rparr>"

text \<open>The clock of a request that starts at instant 2000.\<close>

definition sample_clock :: Clock where
  "sample_clock =
     \<lparr> clk_now = 2000, clk_expiry = 2001, clk_created = 2002, clk_updated = 2002,
       clk_timeMin = 2003, clk_timeMax = 2003 \<rparr>"

text \<open>A call of an action by user u1 with no query parameters.\<close>

definition sample_request :: "string \<Rightarrow> Request" where
  "sample_request pathname =
     \<lparr> rq_method = ''GET'', rq_pathname = pathname, rq_origin = ''https://p.supabase.co'',
       rq_authorization = Some ''Bearer jwt-u1'', rq_params = [] \<rparr>"


text \<open>The same server while the store refuses the lookup.\<close>

definition sample_env_store_down :: ServerEnv where
  "sample_env_store_down =
     sample_env\<lparr> select_fault := Some \<lparr> pe_code = ''08006'', pe_message = ''connection failure'' \<rparr> \<rparr>"

text \<open>The same server while the store rejects every update.\<close>

definition sample_env_update_rejected :: ServerEnv where
  "sample_env_update_rejected =
     sample_env\<lparr> update_fault := Some \<lparr> pe_code = ''42501'', pe_message = ''permission denied'' \<rparr> \<rparr>"

text \<open>One local event, one timed provider event and one all-day provider event.\<close>

definition sample_crm_event :: CalendarEvent where
  "sample_crm_event =
     \<lparr> c_id = ''l1'', c_title = ''Call Alfred'', c_start = ''2024-05-03T10:00:00Z'',
       c_end = Some ''2024-05-03T11:00:00Z'', c_allDay = False, c_contact_id = None,
       c_description = None, c_location = Some ''Cave'', c_created_at = ''2024-04-01T00:00:00Z'',
       c_updated_at = ''2024-04-01T00:00:00Z'', c_contact = None \<rparr>"

definition sample_google_timed :: GoogleCalendarEvent where
  "sample_google_timed =
     \<lparr> g_id = ''g1'', g_summary = ''Standup'', g_description = None, g_location = None,
       g_start = \<lparr> dateTime = Some ''2024-05-01T09:00:00Z'', date = None, timeZone = None \<rparr>,
       g_end = \<lparr> dateTime = Some ''2024-05-01T09:15:00Z'', date = None, timeZone = None \<rparr>,
       g_organizer = None, g_attendees = None, g_htmlLink = ''https://calendar.google.com/event?eid=g1'',
       g_colorId = None, g_status = ''confirmed'' \<rparr>"

definition sample_google_allday :: GoogleCalendarEvent where
  "sample_google_allday =
     \<lparr> g_id = ''g2'', g_summary = ''Gala'', g_description = None, g_location = None,
       g_start = \<lparr> dateTime = None, date = Some ''2024-05-02'', timeZone = None \<rparr>,
       g_end = \<lparr> dateTime = None, date = Some ''2024-05-03'', timeZone = None \<rparr>,
       g_organizer = None, g_attendees = None, g_htmlLink = ''https://calendar.google.com/event?eid=g2'',
       g_colorId = None, g_status = ''confirmed'' \<rparr>"

text \<open>
  The record of u1 after a disconnect, the record of u1 with a token that is still valid,
  and the record of u1 whose token expires at the instant the sample clock reads.
\<close>

definition sample_row_disabled :: Integration where
  "sample_row_disabled = sample_row\<lparr> enabled := False \<rparr>"

definition sample_row_valid :: Integration where
  "sample_row_valid = sample_row\<lparr> expires_at := 9000 \<rparr>"

definition sample_row_expiring :: Integration where
  "sample_row_expiring = sample_row\<lparr> expires_at := 2000 \<rparr>"

text \<open>A signed-in browser of user u1 whose functions answer: connected, with an authorization URL.\<close>

definition sample_body :: ResponseBody where
  "sample_body =
     \<lparr> b_connected = True, b_url = UrlString ''https://accounts.google.com/o/oauth2/v2/auth?state=u1'',
       b_items = Some [sample_google_timed], b_event = sample_google_timed \<rparr>"

definition sample_client_env :: ClientEnv where
  "sample_client_env =
     \<lparr> VITE_SUPABASE_FUNCTIONS_URL = Some ''https://p.supabase.co/functions/v1'',
       VITE_SUPABASE_URL = Some ''https://p.supabase.co'',
       getSession = Some \<lparr> s_access_token = ''jwt-u1'', s_user_id = ''u1'' \<rparr>,
       fetch = (\<lambda>rq. Resolved \<lparr> r_status = 200, r_statusText = ''OK'', r_json = Inr sample_body \<rparr>),
       window_origin = ''https://crm.example'',
       window_open = (\<lambda>url. True),
       store_fault = None,
       date_now = 5000 \<rparr>"

text \<open>The hook before anything happened, and the hook of a connected user with one event.\<close>

definition sample_client :: Client where
  "sample_client =
     \<lparr> state = \<lparr> isConnected = False, events = [], loading = False, error = None \<rparr>,
       functionsUrl = None, toasts = [], requests = [], popup = NoPopup,
       messageListener_on = False, checkStatusInterval_on = False, timeout_on = False \<rparr>"

definition sample_client_connected :: Client where
  "sample_client_connected =
     sample_client\<lparr> state := \<lparr> isConnected = True, events = [sample_google_allday],
                                   loading = False, error = None \<rparr> \<rparr>"

text \<open>The hook right after \<open>connect\<close> has opened the popup.\<close>

definition sample_flow :: Client where
  "sample_flow = snd (connect sample_client_env sample_client)"

section \<open>Properties of the merge\<close>

lemma getAllEvents_length:
  "length (getAllEvents crm conn google) = length crm + (if conn then length google else 0)"
  by (simp add: getAllEvents_def getCrmEvents_def getGoogleEvents_def)

lemma getAllEvents_crm_nth:
  "i < length crm \<Longrightarrow> getAllEvents crm conn google ! i = formatCrmEvent (crm ! i)"
  by (simp add: getAllEvents_def getCrmEvents_def nth_append)

lemma getAllEvents_google_nth:
  "j < length google \<Longrightarrow>
   getAllEvents crm True google ! (length crm + j) = formatGoogleEvent (google ! j)"
  by (simp add: getAllEvents_def getCrmEvents_def getGoogleEvents_def nth_append)

lemma formatGoogleEvent_fields:
  "e_title (formatGoogleEvent g) = g_summary g"
  "e_start (formatGoogleEvent g) =
     (if truthy (dateTime (g_start g)) then dateTime (g_start g) else date (g_start g))"
  "e_end (formatGoogleEvent g) =
     (if truthy (dateTime (g_end g)) then dateTime (g_end g) else date (g_end g))"
  "e_allDay (formatGoogleEvent g) = (\<not> truthy (dateTime (g_start g)))"
  by (simp_all add: formatGoogleEvent_def js_or_def Let_def)

lemma formatCrmEvent_fields:
  "e_id (formatCrmEvent c) = c_id c"
  "e_title (formatCrmEvent c) = c_title c"
  "e_start (formatCrmEvent c) = Some (c_start c)"
  "e_end (formatCrmEvent c) = c_end c"
  "e_allDay (formatCrmEvent c) = c_allDay c"
  by (simp_all add: formatCrmEvent_def)

text \<open>
  C4. The unified list is the mapped local events followed by the mapped provider events:
  with N local and M provider events it has N + M entries while connected, entry i < N is
  the local mapping of local event i, entry N + j is the provider mapping of provider event
  j (title from summary, start and end from dateTime when it is set and from date otherwise,
  allDay exactly when the start has no dateTime), in the order of the two inputs; while not
  connected the list is exactly the N mapped local events.
\<close>

theorem getAllEvents_concat:
  "length (getAllEvents crm True google) = length crm + length google
   \<and> getAllEvents crm True google = map formatCrmEvent crm @ map formatGoogleEvent google
   \<and> (\<forall>i < length crm.
         getAllEvents crm True google ! i = formatCrmEvent (crm ! i)
         \<and> e_id (getAllEvents crm True google ! i) = c_id (crm ! i)
         \<and> e_title (getAllEvents crm True google ! i) = c_title (crm ! i)
         \<and> e_start (getAllEvents crm True google ! i) = Some (c_start (crm ! i))
         \<and> e_end (getAllEvents crm True google ! i) = c_end (crm ! i)
         \<and> e_allDay (getAllEvents crm True google ! i) = c_allDay (crm ! i))
   \<and> (\<forall>j < length google.
         getAllEvents crm True google ! (length crm + j) = formatGoogleEvent (google ! j)
         \<and> e_id (getAllEvents crm True google ! (length crm + j)) = g_id (google ! j)
         \<and> e_title (getAllEvents crm True google ! (length crm + j)) = g_summary (google ! j)
         \<and> e_start (getAllEvents crm True google ! (length crm + j)) =
             (if truthy (dateTime (g_start (google ! j))) then dateTime (g_start (google ! j))
              else date (g_start (google ! j)))
         \<and> e_end (getAllEvents crm True google ! (length crm + j)) =
             (if truthy (dateTime (g_end (google ! j))) then dateTime (g_end (google ! j))
              else date (g_end (google ! j)))
         \<and> e_allDay (getAllEvents crm True google ! (length crm + j)) =
             (\<not> truthy (dateTime (g_start (google ! j)))))
   \<and> getAllEvents crm False google = map formatCrmEvent crm
   \<and> length (getAllEvents crm False google) = length crm"
proof -
  have len: "length (getAllEvents crm True google) = length crm + length google"
    by (simp add: getAllEvents_length)
  have cat: "getAllEvents crm True google = map formatCrmEvent crm @ map formatGoogleEvent google"
    by (simp add: getAllEvents_def getCrmEvents_def getGoogleEvents_def)
  have loc: "\<forall>i < length crm.
         getAllEvents crm True google ! i = formatCrmEvent (crm ! i)
         \<and> e_id (getAllEvents crm True google ! i) = c_id (crm ! i)
         \<and> e_title (getAllEvents crm True google ! i) = c_title (crm ! i)
         \<and> e_start (getAllEvents crm True google ! i) = Some (c_start (crm ! i))
         \<and> e_end (getAllEvents crm True google ! i) = c_end (crm ! i)
         \<and> e_allDay (getAllEvents crm True google ! i) = c_allDay (crm ! i)"
    by (simp add: getAllEvents_crm_nth formatCrmEvent_fields)
  have goo: "\<forall>j < length google.
         getAllEvents crm True google ! (length crm + j) = formatGoogleEvent (google ! j)
         \<and> e_id (getAllEvents crm True google ! (length crm + j)) = g_id (google ! j)
         \<and> e_title (getAllEvents crm True google ! (length crm + j)) = g_summary (google ! j)
         \<and> e_start (getAllEvents crm True google ! (length crm + j)) =
             (if truthy (dateTime (g_start (google ! j))) then dateTime (g_start (google ! j))
              else date (g_start (google ! j)))
         \<and> e_end (getAllEvents crm True google ! (length crm + j)) =
             (if truthy (dateTime (g_end (google ! j))) then dateTime (g_end (google ! j))
              else date (g_end (google ! j)))
         \<and> e_allDay (getAllEvents crm True google ! (length crm + j)) =
             (\<not> truthy (dateTime (g_start (google ! j))))"
    by (simp add: getAllEvents_google_nth formatGoogleEvent_fields)
      (simp add: formatGoogleEvent_def Let_def)
  have off: "getAllEvents crm False google = map formatCrmEvent crm"
    by (simp add: getAllEvents_def getCrmEvents_def)
  have offlen: "length (getAllEvents crm False google) = length crm"
    by (simp add: getAllEvents_length)
  from len cat loc goo off offlen show ?thesis by blast
qed


theorem getAllEvents_concat_witness:
  "length (getAllEvents [sample_crm_event] True [sample_google_timed, sample_google_allday]) = 3
   \<and> getAllEvents [sample_crm_event] True [sample_google_timed, sample_google_allday] ! 0
       = formatCrmEvent sample_crm_event
   \<and> e_title (getAllEvents [sample_crm_event] True [sample_google_timed, sample_google_allday] ! 0)
       = ''Call Alfred''
   \<and> e_title (getAllEvents [sample_crm_event] True [sample_google_timed, sample_google_allday] ! 1)
       = ''Standup''
   \<and> e_start (getAllEvents [sample_crm_event] True [sample_google_timed, sample_google_allday] ! 1)
       = Some ''2024-05-01T09:00:00Z''
   \<and> \<not> e_allDay (getAllEvents [sample_crm_event] True [sample_google_timed, sample_google_allday] ! 1)
   \<and> e_start (getAllEvents [sample_crm_event] True [sample_google_timed, sample_google_allday] ! 2)
       = Some ''2024-05-02''
   \<and> e_allDay (getAllEvents [sample_crm_event] True [sample_google_timed, sample_google_allday] ! 2)
   \<and> getAllEvents [sample_crm_event] False [sample_google_timed, sample_google_allday]
       = [formatCrmEvent sample_crm_event]"
proof -
  let ?crm = "[sample_crm_event]" and ?goo = "[sample_google_timed, sample_google_allday]"
  note t = getAllEvents_concat [of ?crm ?goo]
  from t have len: "length (getAllEvents ?crm True ?goo) = length ?crm + length ?goo"
    by (rule conjunct1)
  from t have loc: "\<forall>i < length ?crm.
         getAllEvents ?crm True ?goo ! i = formatCrmEvent (?crm ! i)
         \<and> e_id (getAllEvents ?crm True ?goo ! i) = c_id (?crm ! i)
         \<and> e_title (getAllEvents ?crm True ?goo ! i) = c_title (?crm ! i)
         \<and> e_start (getAllEvents ?crm True ?goo ! i) = Some (c_start (?crm ! i))
         \<and> e_end (getAllEvents ?crm True ?goo ! i) = c_end (?crm ! i)
         \<and> e_allDay (getAllEvents ?crm True ?goo ! i) = c_allDay (?crm ! i)"
    by (rule conjunct1 [OF conjunct2 [OF conjunct2]])
  from t have goo: "\<forall>j < length ?goo.
         getAllEvents ?crm True ?goo ! (length ?crm + j) = formatGoogleEvent (?goo ! j)
         \<and> e_id (getAllEvents ?crm True ?goo ! (length ?crm + j)) = g_id (?goo ! j)
         \<and> e_title (getAllEvents ?crm True ?goo ! (length ?crm + j)) = g_summary (?goo ! j)
         \<and> e_start (getAllEvents ?crm True ?goo ! (length ?crm + j)) =
             (if truthy (dateTime (g_start (?goo ! j))) then dateTime (g_start (?goo ! j))
              else date (g_start (?goo ! j)))
         \<and> e_end (getAllEvents ?crm True ?goo ! (length ?crm + j)) =
             (if truthy (dateTime (g_end (?goo ! j))) then dateTime (g_end (?goo ! j))
              else date (g_end (?goo ! j)))
         \<and> e_allDay (getAllEvents ?crm True ?goo ! (length ?crm + j)) =
             (\<not> truthy (dateTime (g_start (?goo ! j))))"
    by (rule conjunct1 [OF conjunct2 [OF conjunct2 [OF conjunct2]]])
  from t have off: "getAllEvents ?crm False ?goo = map formatCrmEvent ?crm"
    by (rule conjunct1 [OF conjunct2 [OF conjunct2 [OF conjunct2 [OF conjunct2]]]])
  have v: "c_title sample_crm_event = ''Call Alfred''"
      "g_summary sample_google_timed = ''Standup''"
      "dateTime (g_start sample_google_timed) = Some ''2024-05-01T09:00:00Z''"
      "dateTime (g_start sample_google_allday) = None"
      "date (g_start sample_google_allday) = Some ''2024-05-02''"
    by (simp_all add: sample_crm_event_def sample_google_timed_def sample_google_allday_def)
  have l0: "getAllEvents ?crm True ?goo ! 0 = formatCrmEvent sample_crm_event"
       "e_title (getAllEvents ?crm True ?goo ! 0) = c_title sample_crm_event"
    using loc [rule_format, of 0] by (simp_all add: formatCrmEvent_fields)
  have g0: "e_title (getAllEvents ?crm True ?goo ! 1) = g_summary sample_google_timed"
       "e_start (getAllEvents ?crm True ?goo ! 1) =
          (if truthy (dateTime (g_start sample_google_timed)) then dateTime (g_start sample_google_timed)
           else date (g_start sample_google_timed))"
       "e_allDay (getAllEvents ?crm True ?goo ! 1) = (\<not> truthy (dateTime (g_start sample_google_timed)))"
    using goo [rule_format, of 0] by (simp_all add: formatGoogleEvent_fields)
  have g1: "e_start (getAllEvents ?crm True ?goo ! 2) =
          (if truthy (dateTime (g_start sample_google_allday)) then dateTime (g_start sample_google_allday)
           else date (g_start sample_google_allday))"
       "e_allDay (getAllEvents ?crm True ?goo ! 2) = (\<not> truthy (dateTime (g_start sample_google_allday)))"
    using goo [rule_format, of 1] by (simp_all add: formatGoogleEvent_fields numeral_2_eq_2)
  from len l0 g0 g1 off show ?thesis by (simp add: v truthy_def formatCrmEvent_fields numeral_2_eq_2)
qed

section \<open>The store and the two status answers\<close>

lemma truthy_simps:
  "truthy None = False"
  "truthy (Some s) = (s \<noteq> [])"
  by (simp_all add: truthy_def)

lemma filter_key_le1:
  "distinct (map f xs) \<Longrightarrow> length (filter (\<lambda>r. f r = k \<and> Q r) xs) \<le> 1"
proof (induction xs)
  case Nil
  then show ?case by simp
next
  case (Cons x xs)
  then have d: "distinct (map f xs)" and nin: "f x \<notin> f ` set xs" by auto
  show ?case
  proof (cases "f x = k \<and> Q x")
    case True
    then have "filter (\<lambda>r. f r = k \<and> Q r) xs = []"
      using nin by (fastforce simp: filter_empty_conv image_iff)
    with True show ?thesis by simp
  next
    case False
    then show ?thesis using Cons.IH [OF d] by auto
  qed
qed

lemma select_enabled_le1:
  assumes "unique_keys tbl"
  shows "length (select_enabled uid tbl) \<le> 1"
proof -
  have "select_enabled uid tbl =
        filter (\<lambda>r. (user_id r, provider r) = (uid, ''google_calendar'') \<and> enabled r) tbl"
    by (simp add: select_enabled_def)
  moreover have "length (filter (\<lambda>r. (user_id r, provider r) = (uid, ''google_calendar'') \<and> enabled r) tbl) \<le> 1"
    using assms unfolding unique_keys_def by (rule filter_key_le1)
  ultimately show ?thesis by simp
qed

lemma select_enabled_empty: "(select_enabled uid tbl = []) = (\<not> has_enabled uid tbl)"
  by (auto simp: select_enabled_def has_enabled_def filter_empty_conv list_ex_iff)

lemma select_enabled_cases:
  assumes "unique_keys tbl"
  shows "(\<not> has_enabled uid tbl \<and> select_enabled uid tbl = [])
         \<or> (has_enabled uid tbl \<and> (\<exists>r. select_enabled uid tbl = [r]))"
proof (cases "select_enabled uid tbl")
  case Nil
  then show ?thesis by (simp add: select_enabled_empty [symmetric])
next
  case (Cons r rs)
  with select_enabled_le1 [OF assms, of uid] have "rs = []" by simp
  with Cons have "select_enabled uid tbl = [r]" by simp
  moreover from this have "has_enabled uid tbl"
    using select_enabled_empty [of uid tbl] by simp
  ultimately show ?thesis by blast
qed

lemma single_answers:
  "single None [] = (None, Some \<lparr> pe_code = ''PGRST116'',
       pe_message = ''JSON object requested, multiple (or no) rows returned'' \<rparr>)"
  "single None [r] = (Some r, None)"
  "single (Some e) rows = (None, Some e)"
  by (simp_all add: single_def)

lemma ga_status_answer:
  assumes "unique_keys tbl"
  shows "ga_status env uid tbl =
         \<lparr> status = 200, body = ConnectedJson (select_fault env = None \<and> has_enabled uid tbl) \<rparr>"
proof (cases "select_fault env")
  case None
  from select_enabled_cases [OF assms, of uid] show ?thesis
    by (auto simp: ga_status_def None single_answers)
next
  case (Some e)
  then show ?thesis by (simp add: ga_status_def single_answers)
qed

lemma gc_status_answer:
  assumes "unique_keys tbl"
  shows "gc_status env uid tbl =
         (case select_fault env of
            None \<Rightarrow> \<lparr> status = 200, body = ConnectedJson (has_enabled uid tbl) \<rparr>
          | Some e \<Rightarrow>
              if pe_code e = ''PGRST116'' then \<lparr> status = 200, body = ConnectedJson False \<rparr>
              else \<lparr> status = 500,
                     body = StatusFailedJson ''Failed to check connection status'' (pe_message e) False \<rparr>)"
proof (cases "select_fault env")
  case None
  from select_enabled_cases [OF assms, of uid] show ?thesis
    by (auto simp: gc_status_def None single_answers)
next
  case (Some e)
  then show ?thesis by (simp add: gc_status_def single_answers)
qed

text \<open>A session check that passes was made with a client.\<close>

lemma getUser_client:
  assumes "getUser env token = Some uid"
  shows "createClient env = None" and "\<not> createClient_throws env"
  using assms by (simp_all add: getUser_def createClient_throws_def split: if_splits)

lemma google_auth_status:
  assumes "rq_method req \<noteq> ''OPTIONS''" and "action_of (rq_pathname req) = ''status''"
    and "getUser env (bearer_token req) = Some uid"
  shows "google_auth env clk req tbl = (ga_status env uid tbl, tbl, [])"
  using assms getUser_client [OF assms(3)] by (simp add: google_auth_def)

lemma google_calendar_status:
  assumes "rq_method req \<noteq> ''OPTIONS''" and "action_of (rq_pathname req) = ''status''"
    and "getUser env (bearer_token req) = Some uid" and "\<not> missing_configuration env"
  shows "google_calendar env clk req tbl = Some (gc_status env uid tbl, tbl, [])"
  using assms getUser_client [OF assms(3)] by (simp add: google_calendar_def)

lemma sample_facts:
  "action_of ''/google-auth/status'' = ''status''"
  "action_of ''/google-calendar/status'' = ''status''"
  "action_of ''/google-auth/events'' = ''events''"
  "action_of ''/google-calendar/events'' = ''events''"
  "bearer_token (sample_request p) = ''jwt-u1''"
  "\<not> missing_configuration sample_env"
  "unique_keys [sample_row]"
  "has_enabled ''u1'' [sample_row]"
  "createClient sample_env = None"
  by (simp_all add: action_of_def bearer_token_def sample_request_def missing_configuration_def
      sample_env_def truthy_def unique_keys_def has_enabled_def sample_row_def createClient_def)

section \<open>The status action\<close>

text \<open>
  C9 (amended). For a call of the status action that passes the session check, on a table
  with at most one row per user and provider: google-auth always answers 200, with
  connected true exactly when the lookup did not fail and an enabled record of the caller
  exists; google-calendar (whose session check follows its configuration check) answers
  200 with connected true exactly when an enabled record of the caller exists, provided
  the lookup does not fail, answers 200 with connected false when the lookup fails with
  code PGRST116, and answers 500 with connected false when the lookup fails with any
  other code. In particular a caller without a record gets 200 and connected false from
  both when the lookup does not fail.
\<close>

theorem status_connected_iff_enabled:
  assumes "rq_method req \<noteq> ''OPTIONS''" and "action_of (rq_pathname req) = ''status''"
    and "getUser env (bearer_token req) = Some uid" and "unique_keys tbl"
  shows "google_auth env clk req tbl =
           (\<lparr> status = 200, body = ConnectedJson (select_fault env = None \<and> has_enabled uid tbl) \<rparr>, tbl, [])
         \<and> (\<not> missing_configuration env \<longrightarrow>
              google_calendar env clk req tbl =
                Some ((case select_fault env of
                         None \<Rightarrow> \<lparr> status = 200, body = ConnectedJson (has_enabled uid tbl) \<rparr>
                       | Some e \<Rightarrow>
                           if pe_code e = ''PGRST116'' then \<lparr> status = 200, body = ConnectedJson False \<rparr>
                           else \<lparr> status = 500,
                                  body = StatusFailedJson ''Failed to check connection status''
                                           (pe_message e) False \<rparr>), tbl, []))"
  using assms
  by (simp add: google_auth_status google_calendar_status ga_status_answer gc_status_answer)

theorem status_connected_iff_enabled_witness:
  "google_auth sample_env sample_clock (sample_request ''/google-auth/status'') [sample_row] =
     (\<lparr> status = 200, body = ConnectedJson True \<rparr>, [sample_row], [])
   \<and> google_calendar sample_env sample_clock (sample_request ''/google-calendar/status'') [sample_row] =
       Some (\<lparr> status = 200, body = ConnectedJson True \<rparr>, [sample_row], [])
   \<and> google_auth sample_env sample_clock (sample_request ''/google-auth/status'') [] =
       (\<lparr> status = 200, body = ConnectedJson False \<rparr>, [], [])
   \<and> google_calendar sample_env sample_clock (sample_request ''/google-calendar/status'') [] =
       Some (\<lparr> status = 200, body = ConnectedJson False \<rparr>, [], [])"
proof -
  have m: "rq_method (sample_request p) \<noteq> ''OPTIONS''" for p
    by (simp add: sample_request_def)
  have p: "rq_pathname (sample_request p) = p" for p
    by (simp add: sample_request_def)
  have u: "getUser sample_env (bearer_token (sample_request p)) = Some ''u1''" for p
    by (simp add: sample_facts getUser_def createClient_throws_def) (simp add: sample_env_def)
  have f: "select_fault sample_env = None"
    by (simp add: sample_env_def)
  have e: "unique_keys []" "\<not> has_enabled ''u1'' []"
    by (simp_all add: unique_keys_def has_enabled_def)
  show ?thesis
    using status_connected_iff_enabled [OF m _ u sample_facts(7), of "''/google-auth/status''" sample_clock]
      status_connected_iff_enabled [OF m _ u sample_facts(7), of "''/google-calendar/status''" sample_clock]
      status_connected_iff_enabled [OF m _ u e(1), of "''/google-auth/status''" sample_clock]
      status_connected_iff_enabled [OF m _ u e(1), of "''/google-calendar/status''" sample_clock]
    by (simp add: p sample_facts f e)
qed

text \<open>
  C9 as stated fails: user u1 is authenticated and has an enabled record, the store
  refuses the lookup with a code other than PGRST116, and google-calendar answers 500
  with connected false, while google-auth answers 200 with connected false.
\<close>

theorem status_store_failure_counterexample:
  "getUser sample_env_store_down (bearer_token (sample_request ''/google-calendar/status'')) = Some ''u1''
   \<and> has_enabled ''u1'' [sample_row]
   \<and> google_calendar sample_env_store_down sample_clock (sample_request ''/google-calendar/status'') [sample_row] =
       Some (\<lparr> status = 500,
               body = StatusFailedJson ''Failed to check connection status'' ''connection failure'' False \<rparr>,
             [sample_row], [])
   \<and> google_auth sample_env_store_down sample_clock (sample_request ''/google-auth/status'') [sample_row] =
       (\<lparr> status = 200, body = ConnectedJson False \<rparr>, [sample_row], [])"
proof -
  have m: "rq_method (sample_request p) \<noteq> ''OPTIONS''" for p
    by (simp add: sample_request_def)
  have p: "rq_pathname (sample_request p) = p" for p
    by (simp add: sample_request_def)
  have u: "getUser sample_env_store_down (bearer_token (sample_request p)) = Some ''u1''" for p
    by (simp add: sample_facts getUser_def createClient_throws_def createClient_def truthy_def)
      (simp add: sample_env_store_down_def sample_env_def)
  have c: "\<not> missing_configuration sample_env_store_down"
    by (simp add: missing_configuration_def sample_env_store_down_def sample_env_def truthy_def)
  have f: "select_fault sample_env_store_down =
             Some \<lparr> pe_code = ''08006'', pe_message = ''connection failure'' \<rparr>"
    by (simp add: sample_env_store_down_def)
  have ga: "google_auth sample_env_store_down sample_clock (sample_request ''/google-auth/status'') [sample_row]
              = (ga_status sample_env_store_down ''u1'' [sample_row], [sample_row], [])"
    by (rule google_auth_status [OF m _ u]) (simp add: p sample_facts)
  have gc: "google_calendar sample_env_store_down sample_clock (sample_request ''/google-calendar/status'') [sample_row]
              = Some (gc_status sample_env_store_down ''u1'' [sample_row], [sample_row], [])"
    by (rule google_calendar_status [OF m _ u c]) (simp add: p sample_facts)
  show ?thesis
    using u [of "''/google-calendar/status''"]
    by (simp add: ga gc sample_facts(7,8) ga_status_answer gc_status_answer f)
qed

section \<open>The events action\<close>

lemma select_enabled_the_record:
  assumes "unique_keys tbl" and "r \<in> set tbl" and "user_id r = uid"
    and "provider r = ''google_calendar''" and "enabled r"
  shows "select_enabled uid tbl = [r]"
proof -
  have "r \<in> set (select_enabled uid tbl)"
    using assms by (simp add: select_enabled_def)
  moreover have "length (select_enabled uid tbl) \<le> 1"
    by (rule select_enabled_le1 [OF assms(1)])
  ultimately show ?thesis
    by (cases "select_enabled uid tbl") auto
qed

lemma select_enabled_disabled:
  assumes "unique_keys tbl" and "r \<in> set tbl" and "user_id r = uid"
    and "provider r = ''google_calendar''" and "\<not> enabled r"
  shows "select_enabled uid tbl = []"
proof -
  have inj: "inj_on (\<lambda>r. (user_id r, provider r)) (set tbl)"
    using assms(1) by (simp add: unique_keys_def distinct_map)
  have "r' = r" if "r' \<in> set tbl" "user_id r' = uid" "provider r' = ''google_calendar''" for r'
    using inj that assms(2,3,4) by (auto dest: inj_onD)
  then show ?thesis
    using assms(5) by (auto simp: select_enabled_def filter_empty_conv)
qed

lemma select_enabled_update:
  assumes "\<And>r. user_id (f r) = user_id r \<and> provider (f r) = provider r \<and> enabled (f r) = enabled r"
  shows "select_enabled uid (map (\<lambda>r. if user_id r = uid \<and> provider r = ''google_calendar'' then f r else r) tbl)
         = map f (select_enabled uid tbl)"
  by (induction tbl) (auto simp: select_enabled_def assms)

lemma google_auth_events:
  assumes "rq_method req \<noteq> ''OPTIONS''" and "action_of (rq_pathname req) = ''events''"
    and "getUser env (bearer_token req) = Some uid"
  shows "google_auth env clk req tbl = ga_events env clk req uid tbl"
  using assms getUser_client [OF assms(3)] by (simp add: google_auth_def)

lemma google_calendar_events:
  assumes "rq_method req \<noteq> ''OPTIONS''" and "action_of (rq_pathname req) = ''events''"
    and "getUser env (bearer_token req) = Some uid" and "\<not> missing_configuration env"
  shows "google_calendar env clk req tbl = Some (gc_events env clk req uid tbl)"
  using assms getUser_client [OF assms(3)] by (simp add: google_calendar_def)

lemma ga_fetch_sent:
  "snd (ga_fetch env clk req tok tbl sent) = (tbl, sent @ [CalendarFetch (ga_events_url env clk req tok)])"
  by (simp add: ga_fetch_def Let_def split: calendar_outcome.splits sum.splits)

lemma ga_events_not_connected:
  assumes "select_enabled uid tbl = []"
  shows "ga_events env clk req uid tbl =
         (\<lparr> status = 400, body = ErrorJson ''Google Calendar not connected'' \<rparr>, tbl, [])"
  using assms by (cases "select_fault env") (simp_all add: ga_events_def single_answers)

lemma getAccessToken_not_connected:
  assumes "select_enabled uid tbl = []"
  shows "getAccessToken env clk uid tbl = (Inl ''Google Calendar not connected'', tbl, [])"
  using assms by (cases "select_fault env") (simp_all add: getAccessToken_def single_answers)

lemma gc_events_not_connected:
  assumes "select_enabled uid tbl = []"
  shows "gc_events env clk req uid tbl =
         (\<lparr> status = 500, body = ErrorDetailsJson ''Failed to fetch events'' ''Google Calendar not connected'' \<rparr>,
          tbl, [])"
  by (simp add: gc_events_def getAccessToken_not_connected [OF assms])

lemma sample_calls:
  "rq_method (sample_request p) \<noteq> ''OPTIONS''"
  "rq_pathname (sample_request p) = p"
  "rq_params (sample_request p) = []"
  "getUser sample_env (bearer_token (sample_request p)) = Some ''u1''"
  "getUser sample_env ''jwt-u1'' = Some ''u1''"
  by (simp_all add: sample_request_def sample_env_def bearer_token_def getUser_def
      createClient_throws_def createClient_def truthy_def)

text \<open>
  With a disabled record of the caller and the unique constraint, the lookup finds no row:
  google-auth answers 400, google-calendar answers 500, and neither sends anything to the
  provider.
\<close>

lemma events_disabled_record_sends_nothing:
  assumes "unique_keys tbl" and "r \<in> set tbl" and "user_id r = uid"
    and "provider r = ''google_calendar''" and "\<not> enabled r"
  shows "ga_events env clk req uid tbl =
           (\<lparr> status = 400, body = ErrorJson ''Google Calendar not connected'' \<rparr>, tbl, [])"
    and "gc_events env clk req uid tbl =
           (\<lparr> status = 500,
              body = ErrorDetailsJson ''Failed to fetch events'' ''Google Calendar not connected'' \<rparr>,
            tbl, [])"
  using select_enabled_disabled [OF assms]
  by (simp_all add: ga_events_not_connected gc_events_not_connected)

text \<open>
  C3 at a concrete call: user u1 is authenticated and the only record of u1 has
  enabled = false. google-auth answers 400; google-calendar answers 500. Neither sends a
  request to the provider.
\<close>

theorem events_disabled_record_answers:
  "google_auth sample_env sample_clock (sample_request ''/google-auth/events'') [sample_row_disabled] =
     (\<lparr> status = 400, body = ErrorJson ''Google Calendar not connected'' \<rparr>, [sample_row_disabled], [])
   \<and> google_calendar sample_env sample_clock (sample_request ''/google-calendar/events'') [sample_row_disabled] =
       Some (\<lparr> status = 500,
               body = ErrorDetailsJson ''Failed to fetch events'' ''Google Calendar not connected'' \<rparr>,
             [sample_row_disabled], [])"
proof -
  have e: "select_enabled ''u1'' [sample_row_disabled] = []"
    by (simp add: select_enabled_def sample_row_disabled_def sample_row_def)
  have ga: "google_auth sample_env sample_clock (sample_request ''/google-auth/events'') [sample_row_disabled]
            = ga_events sample_env sample_clock (sample_request ''/google-auth/events'') ''u1'' [sample_row_disabled]"
    by (rule google_auth_events) (simp_all add: sample_calls sample_facts)
  have gc: "google_calendar sample_env sample_clock (sample_request ''/google-calendar/events'') [sample_row_disabled]
            = Some (gc_events sample_env sample_clock (sample_request ''/google-calendar/events'') ''u1'' [sample_row_disabled])"
    by (rule google_calendar_events) (simp_all add: sample_calls sample_facts)
  show ?thesis
    by (simp add: ga gc ga_events_not_connected [OF e] gc_events_not_connected [OF e])
qed

text \<open>
  C5 at a concrete call: user u1 has an enabled record with a valid token and passes no
  time window. google-auth appends singleEvents=true and orderBy=startTime to the default
  window; the URL of google-calendar ends with singleEvents=true and has no orderBy.
\<close>

theorem events_query_of_both_functions:
  "snd (snd (google_auth sample_env sample_clock (sample_request ''/google-auth/events'') [sample_row_valid])) =
     [CalendarFetch
        \<lparr> cr_url = ''https://www.googleapis.com/calendar/v3/calendars/primary/events'',
          cr_params = [(''timeMin'', ''A''), (''timeMax'', ''B''),
                       (''singleEvents'', ''true''), (''orderBy'', ''startTime'')],
          cr_bearer = ''old-token'' \<rparr>]
   \<and> google_calendar sample_env sample_clock (sample_request ''/google-calendar/events'') [sample_row_valid] =
       Some (\<lparr> status = 200, body = EventsJson ''{}'' \<rparr>, [sample_row_valid],
             [CalendarFetch
                \<lparr> cr_url = ''https://www.googleapis.com/calendar/v3/calendars/primary/events?timeMin=A&timeMax=B&singleEvents=true'',
                  cr_params = [],
                  cr_bearer = ''old-token'' \<rparr>])"
proof -
  have e: "select_enabled ''u1'' [sample_row_valid] = [sample_row_valid]"
    by (simp add: select_enabled_def sample_row_valid_def sample_row_def)
  have v: "expires_at sample_row_valid = 9000" "access_token sample_row_valid = ''old-token''"
    by (simp_all add: sample_row_valid_def sample_row_def)
  have ga: "google_auth sample_env sample_clock (sample_request ''/google-auth/events'') [sample_row_valid]
            = ga_events sample_env sample_clock (sample_request ''/google-auth/events'') ''u1'' [sample_row_valid]"
    by (rule google_auth_events) (simp_all add: sample_calls sample_facts)
  have gc: "google_calendar sample_env sample_clock (sample_request ''/google-calendar/events'') [sample_row_valid]
            = Some (gc_events sample_env sample_clock (sample_request ''/google-calendar/events'') ''u1'' [sample_row_valid])"
    by (rule google_calendar_events) (simp_all add: sample_calls sample_facts)
  have f: "select_fault sample_env = None" "clk_now sample_clock = 2000"
    by (simp_all add: sample_env_def sample_clock_def)
  have ga_url: "ga_events_url sample_env sample_clock (sample_request p) tok =
        \<lparr> cr_url = ''https://www.googleapis.com/calendar/v3/calendars/primary/events'',
          cr_params = [(''timeMin'', ''A''), (''timeMax'', ''B''),
                       (''singleEvents'', ''true''), (''orderBy'', ''startTime'')],
          cr_bearer = tok \<rparr>" for p tok
    by (simp add: ga_events_url_def param_or_def param_def sample_calls sample_env_def sample_clock_def
        thirty_days_def)
  have gc_url: "gc_events_url sample_env sample_clock (sample_request p) tok =
        \<lparr> cr_url = ''https://www.googleapis.com/calendar/v3/calendars/primary/events?timeMin=A&timeMax=B&singleEvents=true'',
          cr_params = [],
          cr_bearer = tok \<rparr>" for p tok
    by (simp add: gc_events_url_def param_or_def param_def sample_calls sample_env_def sample_clock_def
        thirty_days_def GOOGLE_API_URL_def)
  have api: "calendar_api sample_env q = CalResponse 200 ''{}'' (Inr ''{}'')" for q
    by (simp add: sample_env_def)
  have ga_ev: "ga_events sample_env sample_clock (sample_request ''/google-auth/events'') ''u1'' [sample_row_valid]
        = ga_fetch sample_env sample_clock (sample_request ''/google-auth/events'') ''old-token'' [sample_row_valid] []"
    by (simp add: ga_events_def e f v single_answers)
  have tok: "getAccessToken sample_env sample_clock ''u1'' [sample_row_valid] = (Inr ''old-token'', [sample_row_valid], [])"
    by (simp add: getAccessToken_def e f v single_answers)
  show ?thesis
    by (simp add: ga gc ga_ev ga_fetch_sent ga_url gc_events_def tok gc_url api ok_def)
qed

section \<open>The refresh of an expired token\<close>

lemma update_where_ok:
  "fst (update_where None uid f tbl) =
     map (\<lambda>r. if user_id r = uid \<and> provider r = ''google_calendar'' then f r else r) tbl"
  by (simp add: update_where_def)

lemma ga_events_refresh:
  assumes "select_fault env = None" and "select_enabled uid tbl = [integ]"
    and "refresh_token integ = Some rt" and "rt \<noteq> []" and "expires_at integ \<le> clk_now clk"
  shows "ga_events env clk req uid tbl =
     (case token_refresh env rt of
        TokenThrows m \<Rightarrow>
          (\<lparr> status = 500, body = ErrorJson (''Failed to fetch events: '' @ m) \<rparr>,
           tbl, [TokenRequest (RefreshToken rt)])
      | TokenNotOk j \<Rightarrow>
          (\<lparr> status = 500, body = ErrorJson (''Failed to fetch events: Token refresh failed: '' @ j) \<rparr>,
           tbl, [TokenRequest (RefreshToken rt)])
      | Tokens td \<Rightarrow>
          (case t_expires_in td of
             None \<Rightarrow>
               (\<lparr> status = 500, body = ErrorJson ''Failed to fetch events: Invalid time value'' \<rparr>,
                tbl, [TokenRequest (RefreshToken rt)])
           | Some ttl \<Rightarrow>
               if \<not> valid_time (clk_expiry clk + ttl * 1000) then
                 (\<lparr> status = 500, body = ErrorJson ''Failed to fetch events: Invalid time value'' \<rparr>,
                  tbl, [TokenRequest (RefreshToken rt)])
               else
                 ga_fetch env clk req (t_access_token td)
                   (fst (update_where (update_fault env) uid
                      (\<lambda>r. r\<lparr> access_token := t_access_token td,
                              expires_at := clk_expiry clk + ttl * 1000,
                              updated_at := clk_updated clk \<rparr>) tbl))
                   [TokenRequest (RefreshToken rt)]))"
  using assms by (simp add: ga_events_def single_answers truthy_def str_def split: token_outcome.split option.split)

lemma getAccessToken_refresh:
  assumes "select_fault env = None" and "select_enabled uid tbl = [integ]"
    and "refresh_token integ = Some rt" and "rt \<noteq> []" and "expires_at integ < clk_now clk"
  shows "getAccessToken env clk uid tbl =
     (case token_refresh env rt of
        Tokens td \<Rightarrow>
          if \<not> valid_time (clk_expiry clk + expiresIn_or_3600 (t_expires_in td) * 1000) then
            (Inl ''Failed to refresh token: Invalid time value'', tbl, [TokenRequest (RefreshToken rt)])
          else
            (Inr (t_access_token td),
             fst (update_where (update_fault env) uid
                (\<lambda>r. r\<lparr> access_token := t_access_token td,
                        expires_at := clk_expiry clk + expiresIn_or_3600 (t_expires_in td) * 1000,
                        updated_at := clk_updated clk \<rparr>) tbl),
             [TokenRequest (RefreshToken rt)])
      | TokenNotOk m \<Rightarrow> (Inl (''Failed to refresh token: '' @ m), tbl, [TokenRequest (RefreshToken rt)])
      | TokenThrows m \<Rightarrow> (Inl (''Failed to refresh token: '' @ m), tbl, [TokenRequest (RefreshToken rt)]))"
  using assms by (simp add: getAccessToken_def single_answers truthy_def str_def split: token_outcome.split)

lemma gc_events_sent:
  assumes "getAccessToken env clk uid tbl = (Inr tok, tbl', sent)"
  shows "snd (gc_events env clk req uid tbl) = (tbl', sent @ [CalendarFetch (gc_events_url env clk req tok)])"
  by (simp add: gc_events_def assms Let_def split: calendar_outcome.splits sum.splits)

lemma gc_events_thrown:
  assumes "getAccessToken env clk uid tbl = (Inl m, tbl', sent)"
  shows "gc_events env clk req uid tbl =
         (\<lparr> status = 500, body = ErrorDetailsJson ''Failed to fetch events'' m \<rparr>, tbl', sent)"
  by (simp add: gc_events_def assms)

text \<open>
  At the instant of expiry itself the two functions differ: google-auth refreshes
  (\<open>now >= expiresAt\<close>), \<open>getAccessToken\<close> of google-calendar does not
  (\<open>Date.now() > expiresAt\<close>): it hands out the stored token, sends no refresh request and
  writes nothing, whatever the record and the provider are.
\<close>

lemma getAccessToken_at_expiry:
  assumes "select_fault env = None" and "select_enabled uid tbl = [integ]"
    and "expires_at integ = clk_now clk"
  shows "getAccessToken env clk uid tbl = (Inr (access_token integ), tbl, [])"
  using assms by (simp add: getAccessToken_def single_answers)

lemma sample_values:
  "select_fault sample_env = None"
  "update_fault sample_env = None"
  "token_refresh sample_env rt =
     Tokens \<lparr> t_access_token = ''new-token'', t_refresh_token = None,
              t_token_type = Some ''Bearer'', t_expires_in = Some 3599 \<rparr>"
  "user_id sample_row = ''u1''"
  "provider sample_row = ''google_calendar''"
  "enabled sample_row"
  "refresh_token sample_row = Some ''r1''"
  "expires_at sample_row = 1000"
  "clk_now sample_clock = 2000"
  "clk_expiry sample_clock = 2001"
  "clk_updated sample_clock = 2002"
  "calendar_api sample_env q = CalResponse 200 ''{}'' (Inr ''{}'')"
  by (simp_all add: sample_env_def sample_row_def sample_clock_def)

lemma sample_urls:
  "ga_events_url sample_env sample_clock (sample_request p) tok =
     \<lparr> cr_url = ''https://www.googleapis.com/calendar/v3/calendars/primary/events'',
       cr_params = [(''timeMin'', ''A''), (''timeMax'', ''B''),
                    (''singleEvents'', ''true''), (''orderBy'', ''startTime'')],
       cr_bearer = tok \<rparr>"
  "gc_events_url sample_env sample_clock (sample_request p) tok =
     \<lparr> cr_url = ''https://www.googleapis.com/calendar/v3/calendars/primary/events?timeMin=A&timeMax=B&singleEvents=true'',
       cr_params = [],
       cr_bearer = tok \<rparr>"
  by (simp_all add: ga_events_url_def gc_events_url_def param_or_def param_def sample_calls sample_env_def
      sample_clock_def thirty_days_def GOOGLE_API_URL_def)

text \<open>
  C1 at a concrete call: the enabled record of user u1 has the refresh token r1 and an
  expiry equal to the current time, and the provider grants a refresh with a lifetime of
  3599 seconds. google-auth sends one refresh request, writes the new access token and the
  expiry 2001 + 3599 * 1000 (later than the old expiry 2000) to the record and then sends
  the one calendar fetch with the new token. google-calendar sends no refresh request,
  leaves the record as it is and sends the calendar fetch with the expired token.
\<close>

theorem events_refresh_at_expiry_instant:
  "expires_at sample_row_expiring = clk_now sample_clock
   \<and> enabled sample_row_expiring
   \<and> refresh_token sample_row_expiring = Some ''r1''
   \<and> google_auth sample_env sample_clock (sample_request ''/google-auth/events'') [sample_row_expiring] =
       (\<lparr> status = 200, body = EventsJson ''{}'' \<rparr>,
        [sample_row_expiring\<lparr> access_token := ''new-token'', expires_at := 3601001, updated_at := 2002 \<rparr>],
        [TokenRequest (RefreshToken ''r1''),
         CalendarFetch
           \<lparr> cr_url = ''https://www.googleapis.com/calendar/v3/calendars/primary/events'',
             cr_params = [(''timeMin'', ''A''), (''timeMax'', ''B''),
                          (''singleEvents'', ''true''), (''orderBy'', ''startTime'')],
             cr_bearer = ''new-token'' \<rparr>])
   \<and> google_calendar sample_env sample_clock (sample_request ''/google-calendar/events'') [sample_row_expiring] =
       Some (\<lparr> status = 200, body = EventsJson ''{}'' \<rparr>, [sample_row_expiring],
             [CalendarFetch
                \<lparr> cr_url = ''https://www.googleapis.com/calendar/v3/calendars/primary/events?timeMin=A&timeMax=B&singleEvents=true'',
                  cr_params = [],
                  cr_bearer = ''old-token'' \<rparr>])"
proof -
  have e: "select_enabled ''u1'' [sample_row_expiring] = [sample_row_expiring]"
    by (simp add: select_enabled_def sample_row_expiring_def sample_row_def)
  have v: "expires_at sample_row_expiring = 2000" "access_token sample_row_expiring = ''old-token''"
      "refresh_token sample_row_expiring = Some ''r1''" "enabled sample_row_expiring"
      "user_id sample_row_expiring = ''u1''" "provider sample_row_expiring = ''google_calendar''"
    by (simp_all add: sample_row_expiring_def sample_row_def)
  have ga: "google_auth sample_env sample_clock (sample_request ''/google-auth/events'') [sample_row_expiring]
            = ga_events sample_env sample_clock (sample_request ''/google-auth/events'') ''u1'' [sample_row_expiring]"
    by (rule google_auth_events) (simp_all add: sample_calls sample_facts)
  have gc: "google_calendar sample_env sample_clock (sample_request ''/google-calendar/events'') [sample_row_expiring]
            = Some (gc_events sample_env sample_clock (sample_request ''/google-calendar/events'') ''u1'' [sample_row_expiring])"
    by (rule google_calendar_events) (simp_all add: sample_calls sample_facts)
  have ga_ev: "ga_events sample_env sample_clock (sample_request ''/google-auth/events'') ''u1'' [sample_row_expiring]
        = ga_fetch sample_env sample_clock (sample_request ''/google-auth/events'') ''new-token''
            [sample_row_expiring\<lparr> access_token := ''new-token'', expires_at := 3601001, updated_at := 2002 \<rparr>]
            [TokenRequest (RefreshToken ''r1'')]"
    by (simp add: ga_events_refresh [OF sample_values(1) e v(3)] v sample_values valid_time_def
        update_where_ok)
  have ga_f: "ga_fetch sample_env sample_clock (sample_request p) tok tbl sent =
        (\<lparr> status = 200, body = EventsJson ''{}'' \<rparr>, tbl,
         sent @ [CalendarFetch (ga_events_url sample_env sample_clock (sample_request p) tok)])" for p tok tbl sent
    by (simp add: ga_fetch_def sample_values ok_def)
  have tok: "getAccessToken sample_env sample_clock ''u1'' [sample_row_expiring]
        = (Inr ''old-token'', [sample_row_expiring], [])"
    using getAccessToken_at_expiry [OF sample_values(1) e, of sample_clock]
    by (simp add: v sample_values)
  have gc_ev: "gc_events sample_env sample_clock (sample_request ''/google-calendar/events'') ''u1'' [sample_row_expiring]
        = (\<lparr> status = 200, body = EventsJson ''{}'' \<rparr>, [sample_row_expiring],
           [CalendarFetch (gc_events_url sample_env sample_clock (sample_request ''/google-calendar/events'') ''old-token'')])"
    by (simp add: gc_events_def tok sample_values ok_def)
  show ?thesis
    by (simp add: ga gc ga_ev ga_f gc_ev sample_urls v sample_values)
qed

section \<open>The callback action\<close>

lemma merge_duplicate_columns:
  "user_id (merge_duplicate row old) = user_id row"
  "provider (merge_duplicate row old) = provider row"
  "enabled (merge_duplicate row old) = enabled row"
  "expires_at (merge_duplicate row old) = expires_at row"
  "access_token (merge_duplicate row old) = access_token row"
  by (simp_all add: merge_duplicate_def)

lemma upsert_keys:
  assumes "list_ex (\<lambda>r. conflicts r row) tbl"
  shows "map (\<lambda>r. (user_id r, provider r)) (upsert row tbl) = map (\<lambda>r. (user_id r, provider r)) tbl"
proof -
  have "(user_id (if conflicts r row then merge_duplicate row r else r),
         provider (if conflicts r row then merge_duplicate row r else r)) = (user_id r, provider r)" for r
    by (cases "conflicts r row") (simp_all add: merge_duplicate_columns, simp add: conflicts_def)
  then have "map (\<lambda>r. (user_id r, provider r)) (map (\<lambda>r. if conflicts r row then merge_duplicate row r else r) tbl)
             = map (\<lambda>r. (user_id r, provider r)) tbl"
    by (simp add: comp_def)
  with assms show ?thesis
    by (simp add: upsert_def)
qed

lemma upsert_unique:
  assumes "unique_keys tbl"
  shows "unique_keys (upsert row tbl)"
proof (cases "list_ex (\<lambda>r. conflicts r row) tbl")
  case True
  then show ?thesis
    using assms by (simp add: unique_keys_def upsert_keys)
next
  case False
  then have "\<forall>r \<in> set tbl. \<not> conflicts r row"
    by (simp add: list_ex_iff)
  then have "(user_id row, provider row) \<notin> (\<lambda>r. (user_id r, provider r)) ` set tbl"
    unfolding conflicts_def by force
  moreover have "upsert row tbl = tbl @ [row]"
    using False by (simp add: upsert_def)
  ultimately show ?thesis
    using assms by (simp add: unique_keys_def)
qed

lemma upsert_member:
  "\<exists>r \<in> set (upsert row tbl).
     user_id r = user_id row \<and> provider r = provider row \<and> enabled r = enabled row
     \<and> expires_at r = expires_at row \<and> access_token r = access_token row"
proof (cases "list_ex (\<lambda>r. conflicts r row) tbl")
  case True
  then obtain old where old: "old \<in> set tbl" "conflicts old row"
    by (auto simp: list_ex_iff)
  have "upsert row tbl = map (\<lambda>r. if conflicts r row then merge_duplicate row r else r) tbl"
    using True by (simp add: upsert_def)
  moreover have "(\<lambda>r. if conflicts r row then merge_duplicate row r else r) old
                   \<in> (\<lambda>r. if conflicts r row then merge_duplicate row r else r) ` set tbl"
    using old(1) by (rule imageI)
  ultimately have "merge_duplicate row old \<in> set (upsert row tbl)"
    using old(2) by simp
  then show ?thesis
    using merge_duplicate_columns [of row old] by blast
next
  case False
  then have "row \<in> set (upsert row tbl)"
    by (simp add: upsert_def)
  then show ?thesis by blast
qed

lemma upsert_enabled_record:
  assumes "unique_keys tbl" and "user_id row = uid" and "provider row = ''google_calendar''"
    and "enabled row"
  shows "\<exists>r. select_enabled uid (upsert row tbl) = [r]
             \<and> expires_at r = expires_at row \<and> access_token r = access_token row \<and> enabled r"
proof -
  obtain r where r: "r \<in> set (upsert row tbl)" "user_id r = user_id row" "provider r = provider row"
      "enabled r = enabled row" "expires_at r = expires_at row" "access_token r = access_token row"
    using upsert_member [of row tbl] by blast
  have "select_enabled uid (upsert row tbl) = [r]"
    by (rule select_enabled_the_record [OF upsert_unique [OF assms(1)] r(1)]) (simp_all add: r assms)
  with r assms show ?thesis by simp
qed

lemma status_after_enabled_record:
  assumes "select_enabled uid tbl = [r]" and "select_fault env = None"
  shows "ga_status env uid tbl = \<lparr> status = 200, body = ConnectedJson True \<rparr>"
    and "gc_status env uid tbl = \<lparr> status = 200, body = ConnectedJson True \<rparr>"
  using assms by (simp_all add: ga_status_def gc_status_def single_answers)

lemma upsert_others:
  "filter (\<lambda>r. \<not> conflicts r row) (upsert row tbl) = filter (\<lambda>r. \<not> conflicts r row) tbl"
proof -
  have c: "conflicts (merge_duplicate row r) row" for r
    by (simp add: conflicts_def merge_duplicate_columns)
  have "filter (\<lambda>r. \<not> conflicts r row) (map (\<lambda>r. if conflicts r row then merge_duplicate row r else r) tbl)
        = filter (\<lambda>r. \<not> conflicts r row) tbl"
    by (induction tbl) (simp_all add: c)
  moreover have "\<not> conflicts row row \<Longrightarrow> False"
    by (simp add: conflicts_def)
  ultimately show ?thesis
    by (auto simp: upsert_def)
qed

lemma upsert_other_users:
  assumes "user_id row = uid" and "provider row = ''google_calendar''"
  shows "filter (\<lambda>r. \<not> (user_id r = uid \<and> provider r = ''google_calendar'')) (upsert row tbl)
         = filter (\<lambda>r. \<not> (user_id r = uid \<and> provider r = ''google_calendar'')) tbl"
  using upsert_others [of row tbl] by (simp add: conflicts_def assms)



lemma status_after_upsert:
  assumes "unique_keys tbl" and "user_id row = U" and "provider row = ''google_calendar''"
    and "enabled row" and "select_fault env = None"
  shows "unique_keys (upsert row tbl)"
    and "ga_status env U (upsert row tbl) = \<lparr> status = 200, body = ConnectedJson True \<rparr>"
    and "gc_status env U (upsert row tbl) = \<lparr> status = 200, body = ConnectedJson True \<rparr>"
proof -
  show "unique_keys (upsert row tbl)"
    by (rule upsert_unique [OF assms(1)])
  obtain r where r: "select_enabled U (upsert row tbl) = [r]"
    using upsert_enabled_record [OF assms(1,2,3,4)] by blast
  show "ga_status env U (upsert row tbl) = \<lparr> status = 200, body = ConnectedJson True \<rparr>"
    by (rule status_after_enabled_record(1) [OF r assms(5)])
  show "gc_status env U (upsert row tbl) = \<lparr> status = 200, body = ConnectedJson True \<rparr>"
    by (rule status_after_enabled_record(2) [OF r assms(5)])
qed




section \<open>Disconnecting\<close>

lemma update_where_frame:
  "list_all2 (disconnect_frame uid)
     tbl (fst (update_where fault uid (\<lambda>r. r\<lparr> enabled := False, updated_at := t \<rparr>) tbl))"
  by (cases fault) (simp_all add: update_where_def list_all2_map2 list_all2_same disconnect_frame_def)

lemma select_enabled_after_disable:
  "select_enabled uid (fst (update_where None uid (\<lambda>r. r\<lparr> enabled := False, updated_at := t \<rparr>) tbl)) = []"
  by (induction tbl) (auto simp: update_where_def select_enabled_def)

lemma status_without_enabled_record:
  assumes "select_enabled uid tbl = []"
  shows "ga_status env uid tbl = \<lparr> status = 200, body = ConnectedJson False \<rparr>"
    and "connected_of (body (gc_status env uid tbl)) = Some False"
    and "select_fault env = None \<longrightarrow> gc_status env uid tbl = \<lparr> status = 200, body = ConnectedJson False \<rparr>"
  using assms
  by (cases "select_fault env"; simp add: ga_status_def gc_status_def single_answers)+

lemma google_auth_disconnect:
  assumes "rq_method req \<noteq> ''OPTIONS''" and "action_of (rq_pathname req) = ''disconnect''"
    and "getUser env (bearer_token req) = Some uid"
  shows "google_auth env clk req tbl =
         (case ga_disconnect env clk uid tbl of (r, tbl') \<Rightarrow> (r, tbl', []))"
  using assms getUser_client [OF assms(3)] by (simp add: google_auth_def)

lemma ga_disconnect_answers:
  "ga_disconnect env clk uid tbl =
     (case update_fault env of
        None \<Rightarrow> (\<lparr> status = 200, body = SuccessJson \<rparr>,
                 fst (update_where None uid (\<lambda>r. r\<lparr> enabled := False, updated_at := clk_updated clk \<rparr>) tbl))
      | Some e \<Rightarrow>
          (\<lparr> status = 500, body = ErrorJson (''Failed to disconnect: Error disconnecting: '' @ pe_message e) \<rparr>,
           tbl))"
  by (cases "update_fault env") (simp_all add: ga_disconnect_def update_where_def)

lemma ga_disconnect_table:
  "snd (ga_disconnect env clk uid tbl) =
     fst (update_where (update_fault env) uid (\<lambda>r. r\<lparr> enabled := False, updated_at := clk_updated clk \<rparr>) tbl)"
  by (cases "update_fault env") (simp_all add: ga_disconnect_def update_where_def)

lemma disconnect_table:
  "snd (snd (disconnect cenv c tbl)) =
     (case getSession cenv of
        None \<Rightarrow> tbl
      | Some session \<Rightarrow>
          fst (update_where (store_fault cenv) (s_user_id session)
                 (\<lambda>r. r\<lparr> enabled := False, updated_at := date_now cenv \<rparr>) tbl))"
  by (cases "getSession cenv"; cases "store_fault cenv")
     (simp_all add: disconnect_def Let_def update_where_def)

lemma disconnect_answers:
  assumes "getSession cenv = Some session"
  shows "fst (disconnect cenv c tbl) = (store_fault cenv = None)"
    and "isConnected (state (fst (snd (disconnect cenv c tbl)))) =
           (store_fault cenv \<noteq> None \<and> isConnected (state c))"
    and "events (state (fst (snd (disconnect cenv c tbl)))) =
           (if store_fault cenv = None then [] else events (state c))"
  by (cases "store_fault cenv";
      simp add: disconnect_def assms Let_def update_where_def toast_def setState_def)+

lemma frame_same: "list_all2 (disconnect_frame uid) tbl tbl"
  by (simp add: list_all2_same disconnect_frame_def)

text \<open>
  C8 (amended). A signed-in user uid disconnects, by the disconnect action of google-auth
  or by the hook's own \<open>disconnect\<close>. No row is deleted and no field but \<open>enabled\<close> and
  \<open>updated_at\<close> changes, in any case. When the store accepts the update, the rows of
  (uid, google_calendar) get enabled = false and the new \<open>updated_at\<close>, every other row is
  unchanged, the action answers 200 and the hook returns true with its flag and its events
  cleared. When the store rejects the update, the table is unchanged, the action answers
  500 and the hook returns false and keeps its flag and its events. On a table where the
  rows of (uid, google_calendar) are disabled, a status call for uid answers connected
  false, from both functions, whatever the store answers to the lookup.
\<close>

theorem disconnect_disables_when_store_accepts:
  assumes "rq_method req \<noteq> ''OPTIONS''" and "action_of (rq_pathname req) = ''disconnect''"
    and "getUser env (bearer_token req) = Some uid"
    and "getSession cenv = Some session" and "s_user_id session = uid"
  shows
    "google_auth env clk req tbl =
       (case update_fault env of
          None \<Rightarrow>
            (\<lparr> status = 200, body = SuccessJson \<rparr>,
             map (\<lambda>r. if user_id r = uid \<and> provider r = ''google_calendar''
                       then r\<lparr> enabled := False, updated_at := clk_updated clk \<rparr> else r) tbl,
             [])
        | Some e \<Rightarrow>
            (\<lparr> status = 500,
               body = ErrorJson (''Failed to disconnect: Error disconnecting: '' @ pe_message e) \<rparr>,
             tbl, []))
     \<and> fst (disconnect cenv c tbl) = (store_fault cenv = None)
     \<and> snd (snd (disconnect cenv c tbl)) =
          (case store_fault cenv of
             None \<Rightarrow>
               map (\<lambda>r. if user_id r = uid \<and> provider r = ''google_calendar''
                         then r\<lparr> enabled := False, updated_at := date_now cenv \<rparr> else r) tbl
           | Some e \<Rightarrow> tbl)
     \<and> isConnected (state (fst (snd (disconnect cenv c tbl)))) =
          (store_fault cenv \<noteq> None \<and> isConnected (state c))
     \<and> events (state (fst (snd (disconnect cenv c tbl)))) =
          (if store_fault cenv = None then [] else events (state c))
     \<and> list_all2 (disconnect_frame uid) tbl (fst (snd (google_auth env clk req tbl)))
     \<and> list_all2 (disconnect_frame uid) tbl (snd (snd (disconnect cenv c tbl)))
     \<and> ga_status env' uid
          (map (\<lambda>r. if user_id r = uid \<and> provider r = ''google_calendar''
                    then r\<lparr> enabled := False, updated_at := t \<rparr> else r) tbl)
         = \<lparr> status = 200, body = ConnectedJson False \<rparr>
     \<and> connected_of (body (gc_status env' uid
          (map (\<lambda>r. if user_id r = uid \<and> provider r = ''google_calendar''
                    then r\<lparr> enabled := False, updated_at := t \<rparr> else r) tbl))) = Some False"
proof -
  let ?f = "\<lambda>r. r\<lparr> enabled := False, updated_at := clk_updated clk \<rparr>"
  let ?g = "\<lambda>r. r\<lparr> enabled := False, updated_at := date_now cenv \<rparr>"
  let ?h = "\<lambda>r. r\<lparr> enabled := False, updated_at := t \<rparr>"
  have ga: "google_auth env clk req tbl = (case ga_disconnect env clk uid tbl of (r, tbl') \<Rightarrow> (r, tbl', []))"
    by (rule google_auth_disconnect [OF assms(1,2,3)])
  have a: "google_auth env clk req tbl =
       (case update_fault env of
          None \<Rightarrow>
            (\<lparr> status = 200, body = SuccessJson \<rparr>,
             map (\<lambda>r. if user_id r = uid \<and> provider r = ''google_calendar'' then ?f r else r) tbl, [])
        | Some e \<Rightarrow>
            (\<lparr> status = 500,
               body = ErrorJson (''Failed to disconnect: Error disconnecting: '' @ pe_message e) \<rparr>,
             tbl, []))"
    by (cases "update_fault env") (simp_all add: ga ga_disconnect_answers update_where_ok)
  have tbl1: "fst (snd (google_auth env clk req tbl)) = fst (update_where (update_fault env) uid ?f tbl)"
    using ga_disconnect_table [of env clk uid tbl] by (auto simp: ga split: prod.splits)
  have tbl2: "snd (snd (disconnect cenv c tbl)) = fst (update_where (store_fault cenv) uid ?g tbl)"
    by (simp add: disconnect_table assms(4,5))
  have b: "snd (snd (disconnect cenv c tbl)) =
          (case store_fault cenv of
             None \<Rightarrow> map (\<lambda>r. if user_id r = uid \<and> provider r = ''google_calendar'' then ?g r else r) tbl
           | Some e \<Rightarrow> tbl)"
    unfolding tbl2 by (cases "store_fault cenv") (simp_all add: update_where_def)
  have f1: "list_all2 (disconnect_frame uid) tbl (fst (snd (google_auth env clk req tbl)))"
    unfolding tbl1 by (rule update_where_frame)
  have f2: "list_all2 (disconnect_frame uid) tbl (snd (snd (disconnect cenv c tbl)))"
    unfolding tbl2 by (rule update_where_frame)
  have e: "select_enabled uid (map (\<lambda>r. if user_id r = uid \<and> provider r = ''google_calendar'' then ?h r else r) tbl) = []"
    using select_enabled_after_disable [of uid t tbl] by (simp add: update_where_ok)
  note s = status_without_enabled_record(1,2) [OF e, of env']
  note d = disconnect_answers [OF assms(4), of c tbl]
  from a b d f1 f2 s show ?thesis
    by (intro conjI)
qed

theorem disconnect_disables_when_store_accepts_witness:
  "google_auth sample_env sample_clock (sample_request ''/google-auth/disconnect'') [sample_row] =
     (\<lparr> status = 200, body = SuccessJson \<rparr>, [sample_row\<lparr> enabled := False, updated_at := 2002 \<rparr>], [])
   \<and> fst (disconnect sample_client_env sample_client_connected [sample_row]) = True
   \<and> snd (snd (disconnect sample_client_env sample_client_connected [sample_row]))
       = [sample_row\<lparr> enabled := False, updated_at := 5000 \<rparr>]
   \<and> isConnected (state (fst (snd (disconnect sample_client_env sample_client_connected [sample_row])))) = False
   \<and> ga_status sample_env ''u1'' [sample_row\<lparr> enabled := False, updated_at := 2002 \<rparr>]
       = \<lparr> status = 200, body = ConnectedJson False \<rparr>
   \<and> connected_of (body (gc_status sample_env_store_down ''u1''
         [sample_row\<lparr> enabled := False, updated_at := 2002 \<rparr>])) = Some False"
proof -
  have act: "action_of (rq_pathname (sample_request ''/google-auth/disconnect'')) = ''disconnect''"
    by (simp add: sample_calls action_of_def)
  have ses: "getSession sample_client_env = Some \<lparr> s_access_token = ''jwt-u1'', s_user_id = ''u1'' \<rparr>"
      "store_fault sample_client_env = None" "date_now sample_client_env = 5000"
    by (simp_all add: sample_client_env_def)
  note t = disconnect_disables_when_store_accepts
      [where req = "sample_request ''/google-auth/disconnect''" and env = sample_env and uid = "''u1''"
         and cenv = sample_client_env and session = "\<lparr> s_access_token = ''jwt-u1'', s_user_id = ''u1'' \<rparr>"
         and clk = sample_clock and tbl = "[sample_row]" and c = sample_client_connected and t = 2002,
       OF sample_calls(1) act sample_calls(4) ses(1)]
  from t [of sample_env] t [of sample_env_store_down] show ?thesis
    by (simp add: sample_values ses)
qed

text \<open>
  C8 as stated fails: user u1 is signed in and asks google-auth to disconnect while the
  store rejects the update. The action answers 500, the record of u1 is still enabled, and
  the next status call of u1 answers connected true.
\<close>

theorem disconnect_update_rejected_counterexample:
  "google_auth sample_env_update_rejected sample_clock (sample_request ''/google-auth/disconnect'') [sample_row] =
     (\<lparr> status = 500,
        body = ErrorJson ''Failed to disconnect: Error disconnecting: permission denied'' \<rparr>,
      [sample_row], [])
   \<and> enabled sample_row
   \<and> google_auth sample_env_update_rejected sample_clock (sample_request ''/google-auth/status'') [sample_row] =
       (\<lparr> status = 200, body = ConnectedJson True \<rparr>, [sample_row], [])"
proof -
  have u: "getUser sample_env_update_rejected (bearer_token (sample_request p)) = Some ''u1''" for p
    by (simp add: sample_facts getUser_def createClient_throws_def createClient_def truthy_def)
      (simp add: sample_env_update_rejected_def sample_env_def)
  have f: "update_fault sample_env_update_rejected =
             Some \<lparr> pe_code = ''42501'', pe_message = ''permission denied'' \<rparr>"
      "select_fault sample_env_update_rejected = None"
    by (simp_all add: sample_env_update_rejected_def sample_env_def)
  have act: "action_of (rq_pathname (sample_request ''/google-auth/disconnect'')) = ''disconnect''"
    by (simp add: sample_calls action_of_def)
  have d: "google_auth sample_env_update_rejected sample_clock (sample_request ''/google-auth/disconnect'') [sample_row] =
     (\<lparr> status = 500,
        body = ErrorJson ''Failed to disconnect: Error disconnecting: permission denied'' \<rparr>,
      [sample_row], [])"
    by (simp add: google_auth_disconnect [OF sample_calls(1) act u] ga_disconnect_answers f)
  have s: "google_auth sample_env_update_rejected sample_clock (sample_request ''/google-auth/status'') [sample_row] =
       (\<lparr> status = 200, body = ConnectedJson True \<rparr>, [sample_row], [])"
    by (simp add: google_auth_status [OF sample_calls(1) _ u] sample_calls sample_facts
        ga_status_answer f)
  show ?thesis
    by (simp add: d s sample_values)
qed

section \<open>The hook\<close>

text \<open>
  C10. While the hook's \<open>isConnected\<close> flag is false, \<open>fetchEvents\<close> returns the empty list
  and leaves the hook as it was; \<open>createEvent\<close>, \<open>updateEvent\<close> and \<open>deleteEvent\<close> return
  null, null and false and only show the toast "Google Calendar is not connected". None of
  the four sends a request or changes the hook's state, so the stored events are unchanged.
\<close>

theorem operations_need_connection:
  assumes "\<not> isConnected (state c)"
  shows "fetchEvents env timeMin timeMax c = ([], c)
         \<and> createEvent env eventData c = (None, toast (ToastError ''Google Calendar is not connected'') c)
         \<and> updateEvent env eventId eventData c = (None, toast (ToastError ''Google Calendar is not connected'') c)
         \<and> deleteEvent env eventId c = (False, toast (ToastError ''Google Calendar is not connected'') c)
         \<and> requests (snd (fetchEvents env timeMin timeMax c)) = requests c
         \<and> requests (snd (createEvent env eventData c)) = requests c
         \<and> requests (snd (updateEvent env eventId eventData c)) = requests c
         \<and> requests (snd (deleteEvent env eventId c)) = requests c
         \<and> state (snd (fetchEvents env timeMin timeMax c)) = state c
         \<and> state (snd (createEvent env eventData c)) = state c
         \<and> state (snd (updateEvent env eventId eventData c)) = state c
         \<and> state (snd (deleteEvent env eventId c)) = state c"
  using assms
  by (simp add: fetchEvents_def createEvent_def updateEvent_def deleteEvent_def toast_def)

theorem operations_need_connection_witness:
  "\<not> isConnected (state sample_client)
   \<and> fetchEvents sample_client_env None None sample_client = ([], sample_client)
   \<and> fst (createEvent sample_client_env ''{}'' sample_client) = None
   \<and> fst (updateEvent sample_client_env ''g1'' ''{}'' sample_client) = None
   \<and> fst (deleteEvent sample_client_env ''g1'' sample_client) = False
   \<and> requests (snd (deleteEvent sample_client_env ''g1'' sample_client)) = []
   \<and> events (state (snd (deleteEvent sample_client_env ''g1'' sample_client))) = []"
proof -
  have n: "\<not> isConnected (state sample_client)"
    by (simp add: sample_client_def)
  have v: "requests sample_client = []" "events (state sample_client) = []"
    by (simp_all add: sample_client_def)
  from operations_need_connection [OF n, of sample_client_env None None "''{}''" "''g1''"] n v
  show ?thesis by (simp add: toast_def)
qed

text \<open>
  C6. A message event whose origin is not the window's own origin leaves the hook, the
  popup and the three watchers exactly as they were, whether or not the listener is still
  registered; a run of browser events with such a message in it ends in the same state
  as the run without it.
\<close>

theorem foreign_origin_message_ignored:
  assumes "origin \<noteq> window_origin env"
  shows "messageListener env origin data c = c
         \<and> step env c (Message origin data) = c
         \<and> run env c (before @ [Message origin data] @ after) = run env c (before @ after)"
proof -
  have m: "messageListener env origin data c = c" for c
    using assms by (simp add: messageListener_def)
  have s: "step env c (Message origin data) = c" for c
    by (simp add: step_def m)
  have "run env c (before @ [Message origin data] @ after) = run env c (before @ after)"
    by (simp add: run_def s)
  with m s show ?thesis by simp
qed

section \<open>The popup flow\<close>

lemma sample_client_env_values:
  "VITE_SUPABASE_FUNCTIONS_URL sample_client_env = Some ''https://p.supabase.co/functions/v1''"
  "getSession sample_client_env = Some \<lparr> s_access_token = ''jwt-u1'', s_user_id = ''u1'' \<rparr>"
  "fetch sample_client_env rq = Resolved \<lparr> r_status = 200, r_statusText = ''OK'', r_json = Inr sample_body \<rparr>"
  "window_origin sample_client_env = ''https://crm.example''"
  "window_open sample_client_env url"
  "b_connected sample_body"
  "b_url sample_body = UrlString ''https://accounts.google.com/o/oauth2/v2/auth?state=u1''"
  by (simp_all add: sample_client_env_def sample_body_def)

lemma connect_sample:
  "connect sample_client_env sample_client =
     (True,
      \<lparr> state = \<lparr> isConnected = False, events = [], loading = True, error = None \<rparr>,
        functionsUrl = Some ''https://p.supabase.co/functions/v1'',
        toasts = [],
        requests = [auth_url_request ''https://p.supabase.co/functions/v1''
                      \<lparr> s_access_token = ''jwt-u1'', s_user_id = ''u1'' \<rparr>],
        popup = PopupOpen, messageListener_on = True, checkStatusInterval_on = True,
        timeout_on = True \<rparr>)"
  by (simp add: connect_def getFunctionsUrl_def sample_client_env_values truthy_simps str_def
      sample_client_def setState_def send_def ok_def Let_def)

lemma checkConnection_sample:
  assumes "functionsUrl c = Some ''https://p.supabase.co/functions/v1''"
  shows "checkConnection sample_client_env silent c =
     (True,
      c\<lparr> state := (state c)\<lparr> loading := False, error := None, isConnected := True \<rparr>,
         requests := requests c @ [status_request ''https://p.supabase.co/functions/v1''
                                     \<lparr> s_access_token = ''jwt-u1'', s_user_id = ''u1'' \<rparr>] \<rparr>)"
  by (simp add: checkConnection_def getFunctionsUrl_def assms sample_client_env_values truthy_simps str_def
      setState_def send_def ok_def Let_def)

lemma request_kinds:
  "is_status_request (status_request ''https://p.supabase.co/functions/v1'' session)"
  "\<not> is_status_request (auth_url_request ''https://p.supabase.co/functions/v1'' session)"
  by (simp_all add: is_status_request_def status_request_def auth_url_request_def)

lemma sample_flow_value:
  "sample_flow =
      \<lparr> state = \<lparr> isConnected = False, events = [], loading = True, error = None \<rparr>,
        functionsUrl = Some ''https://p.supabase.co/functions/v1'',
        toasts = [],
        requests = [auth_url_request ''https://p.supabase.co/functions/v1''
                      \<lparr> s_access_token = ''jwt-u1'', s_user_id = ''u1'' \<rparr>],
        popup = PopupOpen, messageListener_on = True, checkStatusInterval_on = True,
        timeout_on = True \<rparr>"
  by (simp add: sample_flow_def connect_sample)

lemma message_step_sample:
  "step sample_client_env sample_flow (Message ''https://crm.example'' (StringData ''google_calendar_connected'')) =
      \<lparr> state = \<lparr> isConnected = True, events = [], loading = False, error = None \<rparr>,
        functionsUrl = Some ''https://p.supabase.co/functions/v1'',
        toasts = [ToastSuccess ''Google Calendar connected successfully''],
        requests = [auth_url_request ''https://p.supabase.co/functions/v1''
                      \<lparr> s_access_token = ''jwt-u1'', s_user_id = ''u1'' \<rparr>,
                    status_request ''https://p.supabase.co/functions/v1''
                      \<lparr> s_access_token = ''jwt-u1'', s_user_id = ''u1'' \<rparr>],
        popup = PopupClosed, messageListener_on = False, checkStatusInterval_on = True,
        timeout_on = True \<rparr>"
  by (simp add: sample_flow_value step_def messageListener_def sample_client_env_values
      checkConnection_sample toast_def)

text \<open>
  C2 at a concrete flow: the popup posts the success message from the window's own origin
  and the interval timer ticks afterwards. The message listener removes itself and closes
  the popup but leaves the interval timer registered, so the tick finds the popup closed
  and checks again: two status re-checks and two success toasts. When the popup closes and
  the timer ticks first, the listener is removed and a later message does nothing.
\<close>

theorem popup_flow_message_then_tick:
  "fst (connect sample_client_env sample_client)
   \<and> checkStatusInterval_on
        (step sample_client_env sample_flow
           (Message ''https://crm.example'' (StringData ''google_calendar_connected'')))
   \<and> status_checks
        (run sample_client_env sample_flow
           [Message ''https://crm.example'' (StringData ''google_calendar_connected''), IntervalTick]) = 2
   \<and> toasts
        (run sample_client_env sample_flow
           [Message ''https://crm.example'' (StringData ''google_calendar_connected''), IntervalTick])
       = [ToastSuccess ''Google Calendar connected successfully'',
          ToastSuccess ''Google Calendar connected successfully'']
   \<and> success_toasts
        (run sample_client_env sample_flow
           [Message ''https://crm.example'' (StringData ''google_calendar_connected''), IntervalTick]) = 2
   \<and> status_checks
        (run sample_client_env sample_flow
           [PopupCloses, IntervalTick,
            Message ''https://crm.example'' (StringData ''google_calendar_connected'')]) = 1
   \<and> success_toasts
        (run sample_client_env sample_flow
           [PopupCloses, IntervalTick,
            Message ''https://crm.example'' (StringData ''google_calendar_connected'')]) = 1"
proof -
  let ?m = "Message ''https://crm.example'' (StringData ''google_calendar_connected'')"
  have c: "fst (connect sample_client_env sample_client)"
    by (simp add: connect_sample)
  have i: "checkStatusInterval_on (step sample_client_env sample_flow ?m)"
    by (simp add: message_step_sample)
  have r1: "run sample_client_env sample_flow [?m, IntervalTick] =
      \<lparr> state = \<lparr> isConnected = True, events = [], loading = False, error = None \<rparr>,
        functionsUrl = Some ''https://p.supabase.co/functions/v1'',
        toasts = [ToastSuccess ''Google Calendar connected successfully'',
                  ToastSuccess ''Google Calendar connected successfully''],
        requests = [auth_url_request ''https://p.supabase.co/functions/v1''
                      \<lparr> s_access_token = ''jwt-u1'', s_user_id = ''u1'' \<rparr>,
                    status_request ''https://p.supabase.co/functions/v1''
                      \<lparr> s_access_token = ''jwt-u1'', s_user_id = ''u1'' \<rparr>,
                    status_request ''https://p.supabase.co/functions/v1''
                      \<lparr> s_access_token = ''jwt-u1'', s_user_id = ''u1'' \<rparr>],
        popup = PopupClosed, messageListener_on = False, checkStatusInterval_on = False,
        timeout_on = True \<rparr>"
    by (simp add: run_def message_step_sample)
       (simp add: step_def checkStatusInterval_def checkConnection_sample toast_def setState_def)
  have r2: "run sample_client_env sample_flow [PopupCloses, IntervalTick, ?m] =
      \<lparr> state = \<lparr> isConnected = True, events = [], loading = False, error = None \<rparr>,
        functionsUrl = Some ''https://p.supabase.co/functions/v1'',
        toasts = [ToastSuccess ''Google Calendar connected successfully''],
        requests = [auth_url_request ''https://p.supabase.co/functions/v1''
                      \<lparr> s_access_token = ''jwt-u1'', s_user_id = ''u1'' \<rparr>,
                    status_request ''https://p.supabase.co/functions/v1''
                      \<lparr> s_access_token = ''jwt-u1'', s_user_id = ''u1'' \<rparr>],
        popup = PopupClosed, messageListener_on = False, checkStatusInterval_on = False,
        timeout_on = True \<rparr>"
    by (simp add: run_def sample_flow_value step_def checkStatusInterval_def checkConnection_sample
        toast_def setState_def)
  from c i show ?thesis
    by (simp add: r1 r2 status_checks_def success_toasts_def request_kinds)
qed

theorem foreign_origin_message_ignored_witness:
  "''https://evil.example'' \<noteq> window_origin sample_client_env
   \<and> messageListener_on sample_flow
   \<and> step sample_client_env sample_flow
        (Message ''https://evil.example'' (StringData ''google_calendar_connected'')) = sample_flow
   \<and> run sample_client_env sample_flow
        ([PopupCloses] @ [Message ''https://evil.example'' (StringData ''google_calendar_connected'')]
           @ [IntervalTick])
       = run sample_client_env sample_flow ([PopupCloses] @ [IntervalTick])"
proof -
  have o: "''https://evil.example'' \<noteq> window_origin sample_client_env"
    by (simp add: sample_client_env_values)
  have l: "messageListener_on sample_flow"
    by (simp add: sample_flow_value)
  from foreign_origin_message_ignored [OF o] o l show ?thesis by blast
qed


end
